theory Spec2Isabelle
  imports Complex_Main
begin

section \<open>Run and Choose: the game session of \<open>src/game.js\<close>\<close>

text \<open>
  The session object of \<open>game.js\<close> (class \<open>Game\<close>) is a record that every operation
  takes and returns. JavaScript numbers that hold pixel positions, timers and speeds are
  modelled as exact \<open>real\<close> numbers (the rounding of IEEE doubles is not modelled);
  counters that only count up are \<open>nat\<close>; \<open>hearts\<close>, which is decremented, is \<open>int\<close>.
  The string tags of the source (\<open>'sword'\<close>/\<open>'magic'\<close>, \<open>'beast'\<close>/\<open>'ghost'\<close>, the five
  game states) are datatypes. Images and drawing are left out: \<open>draw\<close> does not assign
  to any field of the session.

  Every call of \<open>Math.random()\<close> is an input: the record \<open>rnd\<close> holds one value for
  each of the three call sites (monster type, monster position, order of the options).
  The canvas size, which the source reads from the global \<open>canvas\<close>, is a parameter.
\<close>

subsection \<open>Data\<close>

datatype weapon = Sword | Magic

datatype monsterType = Beast | Ghost

datatype gameState = Intro | Choice | Playing | LevelEnd | GameOver

datatype error = TypeError

record level =
  monsterCount :: nat
  speed :: real

definition LEVELS :: "level list" where
  "LEVELS =
    [\<lparr>monsterCount = 5, speed = 2\<rparr>,
     \<lparr>monsterCount = 8, speed = 22 / 10\<rparr>,
     \<lparr>monsterCount = 10, speed = 25 / 10\<rparr>,
     \<lparr>monsterCount = 12, speed = 28 / 10\<rparr>,
     \<lparr>monsterCount = 14, speed = 31 / 10\<rparr>,
     \<lparr>monsterCount = 16, speed = 34 / 10\<rparr>,
     \<lparr>monsterCount = 18, speed = 37 / 10\<rparr>,
     \<lparr>monsterCount = 20, speed = 4\<rparr>,
     \<lparr>monsterCount = 22, speed = 43 / 10\<rparr>,
     \<lparr>monsterCount = 25, speed = 46 / 10\<rparr>]"

record canvas =
  canvas_width :: nat
  canvas_height :: nat

record rnd =
  rnd_type :: real
  rnd_x :: real
  rnd_choice :: real

definition rnd_ok :: "rnd \<Rightarrow> bool" where
  "rnd_ok r \<longleftrightarrow>
     0 \<le> rnd_type r \<and> rnd_type r < 1 \<and> 0 \<le> rnd_x r \<and> rnd_x r < 1 \<and>
     0 \<le> rnd_choice r \<and> rnd_choice r < 1"

record bounds =
  b_x :: real
  b_y :: real
  b_w :: real
  b_h :: real

record Hero =
  hero_x :: real
  hero_y :: real
  hero_width :: real
  hero_height :: real
  hero_weapon :: weapon

record Monster =
  monster_type :: monsterType
  monster_x :: real
  monster_speed :: real
  monster_width :: real
  monster_height :: real
  monster_y :: real
  monster_required :: weapon

record Game =
  levelIndex :: nat
  monsters :: "Monster list"
  spawnTimer :: real
  spawnInterval :: real
  monstersSpawned :: nat
  monstersDefeated :: nat
  monstersToSpawn :: nat
  nextChoiceAt :: nat
  hearts :: int
  hero :: Hero
  bgX :: real
  gameState :: gameState
  choiceActive :: bool
  leftOption :: weapon
  rightOption :: weapon
  damageFlash :: "real option"

subsection \<open>Hero and Monster\<close>

text \<open>\<open>new Hero(img)\<close>, lines 120-127.\<close>

definition Hero_constructor :: Hero where
  "Hero_constructor =
     \<lparr>hero_x = 0, hero_y = 0, hero_width = 80, hero_height = 80, hero_weapon = Sword\<rparr>"

text \<open>\<open>Hero.resetPosition\<close>, lines 130-135: the assignments in the source's order.\<close>

definition resetPosition :: "canvas \<Rightarrow> Hero \<Rightarrow> Hero" where
  "resetPosition cv h =
     (let h1 = h\<lparr>hero_width := real (canvas_height cv) * (15 / 100)\<rparr>;
          h2 = h1\<lparr>hero_height := hero_width h1\<rparr>;
          h3 = h2\<lparr>hero_x := real (canvas_width cv) * (1 / 10)\<rparr>
      in h3\<lparr>hero_y := real (canvas_height cv) - hero_height h3
                        - real (canvas_height cv) * (1 / 10)\<rparr>)"

definition Hero_getBounds :: "Hero \<Rightarrow> bounds" where
  "Hero_getBounds h = \<lparr>b_x = hero_x h, b_y = hero_y h, b_w = hero_width h, b_h = hero_height h\<rparr>"

text \<open>
  \<open>new Monster(type, img)\<close>, lines 151-162; \<open>r\<close> is the value of the constructor's
  \<open>Math.random()\<close>.
\<close>

definition Monster_constructor :: "canvas \<Rightarrow> real \<Rightarrow> monsterType \<Rightarrow> Monster" where
  "Monster_constructor cv r t =
     \<lparr>monster_type = t,
      monster_x = real (canvas_width cv) + r * real (canvas_width cv) * (5 / 10),
      monster_speed = 0,
      monster_width = real (canvas_height cv) * (12 / 100),
      monster_height = real (canvas_height cv) * (12 / 100),
      monster_y = real (canvas_height cv) - real (canvas_height cv) * (12 / 100)
                    - real (canvas_height cv) * (1 / 10),
      monster_required = (if t = Beast then Sword else Magic)\<rparr>"

definition Monster_update :: "real \<Rightarrow> real \<Rightarrow> Monster \<Rightarrow> Monster" where
  "Monster_update dt baseSpeed m = m\<lparr>monster_x := monster_x m - baseSpeed * dt\<rparr>"

definition offscreen :: "Monster \<Rightarrow> bool" where
  "offscreen m \<longleftrightarrow> monster_x m + monster_width m < 0"

definition Monster_getBounds :: "Monster \<Rightarrow> bounds" where
  "Monster_getBounds m =
     \<lparr>b_x = monster_x m, b_y = monster_y m, b_w = monster_width m, b_h = monster_height m\<rparr>"

subsection \<open>Game: construction and level start\<close>

text \<open>
  \<open>new Game(images)\<close>, lines 179-199: \<open>levelIndex = 0\<close>, then \<open>reset()\<close>. The property
  \<open>damageFlash\<close> is not assigned, so it reads as \<open>undefined\<close> (\<open>None\<close>).
\<close>

definition Game_constructor :: Game where
  "Game_constructor =
     \<lparr>levelIndex = 0, monsters = [], spawnTimer = 0, spawnInterval = 1000,
      monstersSpawned = 0, monstersDefeated = 0, monstersToSpawn = 0, nextChoiceAt = 0,
      hearts = 3, hero = Hero_constructor, bgX = 0, gameState = Intro,
      choiceActive = False, leftOption = Sword, rightOption = Magic, damageFlash = None\<rparr>"

text \<open>\<open>randomizeChoices\<close>, lines 221-231; \<open>r\<close> is the value of \<open>Math.random()\<close>.\<close>

definition randomizeChoices :: "real \<Rightarrow> Game \<Rightarrow> Game" where
  "randomizeChoices r g =
     (if r < 5 / 10 then g\<lparr>leftOption := Sword, rightOption := Magic\<rparr>
      else g\<lparr>leftOption := Magic, rightOption := Sword\<rparr>)"

text \<open>
  \<open>startLevel(index)\<close>, lines 200-220. \<open>LEVELS[index]\<close> is \<open>undefined\<close> outside the
  table, and reading \<open>level.monsterCount\<close> then throws a TypeError: the result
  \<open>Inl TypeError\<close> (the assignments made before the throw are not represented; no caller
  in the source passes such an index).
\<close>

definition startLevel :: "canvas \<Rightarrow> real \<Rightarrow> nat \<Rightarrow> Game \<Rightarrow> error + Game" where
  "startLevel cv r index g =
     (if index < length LEVELS then
        (let lv = LEVELS ! index;
             g1 = g\<lparr>levelIndex := index, hearts := 3, monsters := [], spawnTimer := 0,
                    spawnInterval := max 400 (1000 - real index * 50),
                    monstersSpawned := 0, monstersDefeated := 0,
                    monstersToSpawn := monsterCount lv\<rparr>;
             g2 = g1\<lparr>nextChoiceAt := min 3 (monstersToSpawn g1)\<rparr>;
             g3 = g2\<lparr>hero := resetPosition cv (hero g2)\<rparr>;
             g4 = g3\<lparr>hero := (hero g3)\<lparr>hero_weapon := Sword\<rparr>, bgX := 0,
                     gameState := Choice, choiceActive := True\<rparr>
         in Inr (randomizeChoices r g4))
      else Inl TypeError)"

text \<open>
  \<open>spawnMonster\<close>, lines 232-239: \<open>rt\<close> is the \<open>Math.random()\<close> that picks the type,
  \<open>rx\<close> the one inside the Monster constructor.
\<close>

definition spawnMonster :: "canvas \<Rightarrow> real \<Rightarrow> real \<Rightarrow> Game \<Rightarrow> Game" where
  "spawnMonster cv rt rx g =
     (let t = (if rt < 5 / 10 then Beast else Ghost);
          m = Monster_constructor cv rx t
      in g\<lparr>monsters := monsters g @ [m], monstersSpawned := monstersSpawned g + 1\<rparr>)"

subsection \<open>Game.update\<close>

text \<open>\<open>xs.splice(i, 1)\<close>: remove the element at index \<open>i\<close>.\<close>

definition splice1 :: "nat \<Rightarrow> 'a list \<Rightarrow> 'a list" where
  "splice1 i xs = take i xs @ drop (Suc i) xs"

text \<open>
  Lines 250-255, "Spawn monsters over time".
\<close>

definition spawn_step :: "canvas \<Rightarrow> real \<Rightarrow> rnd \<Rightarrow> Game \<Rightarrow> Game" where
  "spawn_step cv delta r g =
     (let g1 = g\<lparr>spawnTimer := spawnTimer g + delta * 1000\<rparr>
      in if monstersSpawned g1 < monstersToSpawn g1 \<and> spawnInterval g1 \<le> spawnTimer g1
         then spawnMonster cv (rnd_type r) (rnd_x r) (g1\<lparr>spawnTimer := 0\<rparr>)
         else g1)"

text \<open>
  Lines 256-265, "Update monsters": \<open>for (let i = this.monsters.length - 1; i >= 0; i--)\<close>.
  The first numeric argument is \<open>i + 1\<close>, so the loop is started with the length of the
  list and ends at \<open>0\<close>. The monster at index \<open>i\<close> is moved in place; when it is then
  off screen it is spliced out and counted as defeated.
\<close>

fun move_loop :: "real \<Rightarrow> real \<Rightarrow> nat \<Rightarrow> Game \<Rightarrow> Game" where
  "move_loop delta sp 0 g = g"
| "move_loop delta sp (Suc i) g =
     (let m = Monster_update (delta * 100) sp (monsters g ! i);
          g1 = g\<lparr>monsters := (monsters g)[i := m]\<rparr>
      in move_loop delta sp i
           (if offscreen m
            then g1\<lparr>monsters := splice1 i (monsters g1),
                    monstersDefeated := monstersDefeated g1 + 1\<rparr>
            else g1))"

text \<open>The overlap test of lines 271-274, with the narrowed hero box (30% to 70%).\<close>

definition collides :: "bounds \<Rightarrow> bounds \<Rightarrow> bool" where
  "collides heroBounds b \<longleftrightarrow>
     b_x b < b_x heroBounds + b_w heroBounds * (7 / 10) \<and>
     b_x heroBounds + b_w heroBounds * (3 / 10) < b_x b + b_w b \<and>
     b_y b < b_y heroBounds + b_h heroBounds \<and>
     b_y heroBounds < b_y b + b_h b"

text \<open>
  The body of the collision loop for index \<open>i\<close>, lines 269-288. The weapon that defeats
  the monster is recomputed from its type, as in the source (line 276).
\<close>

definition collision_body :: "bounds \<Rightarrow> nat \<Rightarrow> Game \<Rightarrow> Game" where
  "collision_body heroBounds i g =
     (let m = monsters g ! i;
          b = Monster_getBounds m
      in if collides heroBounds b then
           (if hero_weapon (hero g) = (if monster_type m = Beast then Sword else Magic)
            then g\<lparr>monsters := splice1 i (monsters g),
                   monstersDefeated := monstersDefeated g + 1\<rparr>
            else g\<lparr>monsters := splice1 i (monsters g),
                   hearts := hearts g - 1,
                   monstersDefeated := monstersDefeated g + 1,
                   damageFlash := Some (2 / 10)\<rparr>)
         else g)"

text \<open>
  Lines 266-289, "Collision detection": the same downward loop; the first numeric
  argument is \<open>i + 1\<close>.
\<close>

fun collision_loop :: "bounds \<Rightarrow> nat \<Rightarrow> Game \<Rightarrow> Game" where
  "collision_loop heroBounds 0 g = g"
| "collision_loop heroBounds (Suc i) g = collision_loop heroBounds i (collision_body heroBounds i g)"

text \<open>Lines 290-294, "Damage flash timer".\<close>

definition flash_step :: "real \<Rightarrow> Game \<Rightarrow> Game" where
  "flash_step delta g =
     (case damageFlash g of
        None \<Rightarrow> g
      | Some f \<Rightarrow> (if f - delta \<le> 0 then g\<lparr>damageFlash := None\<rparr>
                   else g\<lparr>damageFlash := Some (f - delta)\<rparr>))"

text \<open>Lines 295-302, "Check for next choice".\<close>

definition choice_step :: "real \<Rightarrow> Game \<Rightarrow> Game" where
  "choice_step r g =
     (if \<not> choiceActive g \<and> nextChoiceAt g \<le> monstersDefeated g
         \<and> monstersDefeated g < monstersToSpawn g
      then (let g1 = randomizeChoices r (g\<lparr>choiceActive := True, gameState := Choice\<rparr>)
            in g1\<lparr>nextChoiceAt := min (nextChoiceAt g1 + 3) (monstersToSpawn g1)\<rparr>)
      else g)"

text \<open>Lines 303-306, "Check for game over".\<close>

definition gameOver_step :: "Game \<Rightarrow> Game" where
  "gameOver_step g = (if hearts g \<le> 0 then g\<lparr>gameState := GameOver\<rparr> else g)"

text \<open>Lines 307-310, "Check for level completion".\<close>

definition levelEnd_step :: "Game \<Rightarrow> Game" where
  "levelEnd_step g =
     (if monstersToSpawn g \<le> monstersDefeated g \<and> length (monsters g) = 0
      then g\<lparr>gameState := LevelEnd\<rparr> else g)"

text \<open>The block guarded by \<open>gameState === 'playing'\<close>, lines 249-311, in the source's order.\<close>

definition playing_step :: "canvas \<Rightarrow> real \<Rightarrow> real \<Rightarrow> rnd \<Rightarrow> Game \<Rightarrow> Game" where
  "playing_step cv delta sp r g =
     (let g1 = spawn_step cv delta r g;
          g2 = move_loop delta sp (length (monsters g1)) g1;
          heroBounds = Hero_getBounds (hero g2);
          g3 = collision_loop heroBounds (length (monsters g2)) g2;
          g4 = flash_step delta g3;
          g5 = choice_step (rnd_choice r) g4;
          g6 = gameOver_step g5
      in levelEnd_step g6)"

text \<open>Lines 243-248: the background scroll, done in every game state.\<close>

definition scroll_step :: "canvas \<Rightarrow> real \<Rightarrow> real \<Rightarrow> Game \<Rightarrow> Game" where
  "scroll_step cv delta sp g =
     (let g1 = g\<lparr>bgX := bgX g - sp * delta\<rparr>;
          bgWidth = real (canvas_width cv)
      in if bgX g1 \<le> - bgWidth then g1\<lparr>bgX := bgX g1 + bgWidth\<rparr> else g1)"

text \<open>
  \<open>update(delta)\<close>, lines 240-312. \<open>LEVELS[this.levelIndex]\<close> outside the table is
  \<open>undefined\<close> and \<open>level.speed\<close> throws before anything is assigned.
\<close>

definition update :: "canvas \<Rightarrow> real \<Rightarrow> rnd \<Rightarrow> Game \<Rightarrow> error + Game" where
  "update cv delta r g =
     (if levelIndex g < length LEVELS then
        (let sp = speed (LEVELS ! levelIndex g);
             g1 = scroll_step cv delta sp g
         in Inr (if gameState g1 = Playing then playing_step cv delta sp r g1 else g1))
      else Inl TypeError)"

subsection \<open>Input handlers\<close>

text \<open>\<open>handleChoiceSelection(choice)\<close>, lines 436-443.\<close>

definition handleChoiceSelection :: "string \<Rightarrow> Game \<Rightarrow> Game" where
  "handleChoiceSelection c g =
     (if gameState g \<noteq> Choice then g
      else (let selected = (if c = ''left'' then leftOption g else rightOption g)
            in g\<lparr>hero := (hero g)\<lparr>hero_weapon := selected\<rparr>,
                 choiceActive := False, gameState := Playing\<rparr>))"

text \<open>
  The \<open>pointerdown\<close> listener, lines 444-464; \<open>px\<close> is \<open>e.clientX - rect.left\<close> and \<open>r\<close>
  the random value used if a level is started.
\<close>

definition pointerdown :: "canvas \<Rightarrow> real \<Rightarrow> real \<Rightarrow> Game \<Rightarrow> error + Game" where
  "pointerdown cv r px g =
     (if gameState g = Choice then
        Inr (handleChoiceSelection
               (if px < real (canvas_width cv) / 2 then ''left'' else ''right'') g)
      else if gameState g = LevelEnd then
        (if int (levelIndex g) < int (length LEVELS) - 1
         then startLevel cv r (levelIndex g + 1) g
         else startLevel cv r 0 g)
      else if gameState g = GameOver then startLevel cv r 0 g
      else Inr g)"

text \<open>The \<open>keydown\<close> listener, lines 465-485; \<open>k\<close> is \<open>e.key\<close>.\<close>

definition keydown :: "canvas \<Rightarrow> real \<Rightarrow> string \<Rightarrow> Game \<Rightarrow> error + Game" where
  "keydown cv r k g =
     (if gameState g = Choice then
        (if k = ''ArrowLeft'' \<or> k = ''a'' then Inr (handleChoiceSelection ''left'' g)
         else if k = ''ArrowRight'' \<or> k = ''d'' then Inr (handleChoiceSelection ''right'' g)
         else Inr g)
      else if gameState g = LevelEnd then
        (if k = '' '' \<or> k = ''Enter'' then
           (if int (levelIndex g) < int (length LEVELS) - 1
            then startLevel cv r (levelIndex g + 1) g
            else startLevel cv r 0 g)
         else Inr g)
      else if gameState g = GameOver then
        (if k = '' '' \<or> k = ''Enter'' then startLevel cv r 0 g else Inr g)
      else Inr g)"

subsection \<open>Sessions: everything that can happen to the page\<close>

text \<open>
  An event is one animation frame (\<open>loop\<close> calls \<open>game.update(delta)\<close> with
  \<open>delta = (timestamp - lastTimestamp) / 1000\<close>, which is not negative since frame
  timestamps do not decrease), a pointer or key press, or a resize of the window (lines
  32-37, which only assign the canvas size). A world is the canvas size and the session.
\<close>

datatype event =
    Frame real rnd
  | PointerDown real real
  | KeyDown string real
  | Resize nat nat

fun event_ok :: "event \<Rightarrow> bool" where
  "event_ok (Frame delta r) \<longleftrightarrow> 0 \<le> delta \<and> rnd_ok r"
| "event_ok (PointerDown px r) \<longleftrightarrow> 0 \<le> r \<and> r < 1"
| "event_ok (KeyDown k r) \<longleftrightarrow> 0 \<le> r \<and> r < 1"
| "event_ok (Resize wd ht) \<longleftrightarrow> True"

fun step :: "event \<Rightarrow> canvas \<times> Game \<Rightarrow> error + canvas \<times> Game" where
  "step (Frame delta r) (cv, g) =
     (case update cv delta r g of Inl e \<Rightarrow> Inl e | Inr g' \<Rightarrow> Inr (cv, g'))"
| "step (PointerDown px r) (cv, g) =
     (case pointerdown cv r px g of Inl e \<Rightarrow> Inl e | Inr g' \<Rightarrow> Inr (cv, g'))"
| "step (KeyDown k r) (cv, g) =
     (case keydown cv r k g of Inl e \<Rightarrow> Inl e | Inr g' \<Rightarrow> Inr (cv, g'))"
| "step (Resize wd ht) (cv, g) = Inr (\<lparr>canvas_width = wd, canvas_height = ht\<rparr>, g)"

fun run :: "event list \<Rightarrow> canvas \<times> Game \<Rightarrow> error + canvas \<times> Game" where
  "run [] w = Inr w"
| "run (e # es) w = (case step e w of Inl err \<Rightarrow> Inl err | Inr w' \<Rightarrow> run es w')"

text \<open>
  The page starts a session with \<open>game = new Game(images); game.startLevel(0)\<close> (lines
  489-494), at whatever size the canvas has then.
\<close>

definition start :: "canvas \<Rightarrow> real \<Rightarrow> error + canvas \<times> Game" where
  "start cv r =
     (case startLevel cv r 0 Game_constructor of Inl e \<Rightarrow> Inl e | Inr g \<Rightarrow> Inr (cv, g))"

inductive reachable :: "canvas \<times> Game \<Rightarrow> bool" where
  reachable_start: "0 \<le> r \<Longrightarrow> r < 1 \<Longrightarrow> start cv r = Inr w \<Longrightarrow> reachable w"
| reachable_step: "reachable w \<Longrightarrow> event_ok e \<Longrightarrow> step e w = Inr w' \<Longrightarrow> reachable w'"

subsection \<open>Vocabulary of the properties\<close>

text \<open>A monster overlaps the (narrowed) hero box.\<close>

definition hit :: "bounds \<Rightarrow> Monster \<Rightarrow> bool" where
  "hit heroBounds m \<longleftrightarrow> collides heroBounds (Monster_getBounds m)"

text \<open>The hero's weapon is not the one stored in the monster's field \<open>required\<close>.\<close>

definition wrong_weapon :: "Hero \<Rightarrow> Monster \<Rightarrow> bool" where
  "wrong_weapon h m \<longleftrightarrow> hero_weapon h \<noteq> monster_required m"

text \<open>
  The field \<open>required\<close> is what the constructor derived from the type (line 161); the
  collision code recomputes it from the type instead of reading the field (line 276).
\<close>

definition required_ok :: "Monster \<Rightarrow> bool" where
  "required_ok m \<longleftrightarrow> monster_required m = (if monster_type m = Beast then Sword else Magic)"

text \<open>The bookkeeping of the three counters against the list of active monsters.\<close>

definition counts_ok :: "Game \<Rightarrow> bool" where
  "counts_ok g \<longleftrightarrow>
     monstersDefeated g + length (monsters g) = monstersSpawned g \<and>
     monstersSpawned g \<le> monstersToSpawn g"

text \<open>The level is complete: the test of line 308.\<close>

definition level_complete :: "Game \<Rightarrow> bool" where
  "level_complete g \<longleftrightarrow> monstersToSpawn g \<le> monstersDefeated g \<and> monsters g = []"

text \<open>What holds of the session after every event (proved below).\<close>

definition session_inv :: "Game \<Rightarrow> bool" where
  "session_inv g \<longleftrightarrow>
     levelIndex g < length LEVELS \<and>
     counts_ok g \<and>
     monstersToSpawn g = monsterCount (LEVELS ! levelIndex g) \<and>
     spawnInterval g = max 400 (1000 - real (levelIndex g) * 50) \<and>
     hearts g \<le> 3 \<and>
     3 \<le> hearts g + int (monstersDefeated g) \<and>
     (gameState g = Choice \<or> gameState g = Playing \<longrightarrow> 1 \<le> hearts g) \<and>
     gameState g \<noteq> Intro \<and>
     (gameState g = Playing \<longrightarrow> \<not> choiceActive g) \<and>
     (\<forall>m \<in> set (monsters g). required_ok m)"

text \<open>The test of line 296: a choice is due.\<close>

definition choice_due :: "Game \<Rightarrow> bool" where
  "choice_due g \<longleftrightarrow>
     \<not> choiceActive g \<and> nextChoiceAt g \<le> monstersDefeated g \<and>
     monstersDefeated g < monstersToSpawn g"

text \<open>
  The session in the middle of a playing update, after the collision loop and before the
  damage flash timer (lines 250-289).
\<close>

definition after_collisions :: "canvas \<Rightarrow> real \<Rightarrow> real \<Rightarrow> rnd \<Rightarrow> Game \<Rightarrow> Game" where
  "after_collisions cv delta sp r g =
     (let g1 = spawn_step cv delta r g;
          g2 = move_loop delta sp (length (monsters g1)) g1
      in collision_loop (Hero_getBounds (hero g2)) (length (monsters g2)) g2)"

text \<open>A session: the start of the page followed by a list of events.\<close>

definition session :: "canvas \<Rightarrow> real \<Rightarrow> event list \<Rightarrow> error + canvas \<times> Game" where
  "session cv r es = (case start cv r of Inl e \<Rightarrow> Inl e | Inr w \<Rightarrow> run es w)"

subsection \<open>Concrete sessions\<close>

text \<open>
  A canvas of 400 by 1000 pixels. The hero box is then 150 wide at \<open>x = 40\<close>, a monster
  is 120 wide and enters at \<open>x = 400 + r * 200\<close>; on level 0 a frame of one second moves
  every monster 200 pixels to the left and is long enough for the next spawn. A monster
  overlaps the narrowed hero box while \<open>-35 < x < 145\<close>. In the sessions below every
  position comparison is decided by a margin of 15 pixels or more, and the timer
  comparisons are between whole numbers, so the rounding of double arithmetic does not
  change any of their branches.
\<close>

definition canvas0 :: canvas where
  "canvas0 = \<lparr>canvas_width = 400, canvas_height = 1000\<rparr>"

text \<open>Random values that make the next monster a ghost, or a beast, entering at \<open>rx\<close>.\<close>

definition ghost_rnd :: "real \<Rightarrow> rnd" where
  "ghost_rnd rx = \<lparr>rnd_type = 1 / 2, rnd_x = rx, rnd_choice = 0\<rparr>"

definition beast_rnd :: "real \<Rightarrow> rnd" where
  "beast_rnd rx = \<lparr>rnd_type = 0, rnd_x = rx, rnd_choice = 0\<rparr>"

definition demo_monster :: "monsterType \<Rightarrow> real \<Rightarrow> Monster" where
  "demo_monster t px =
     \<lparr>monster_type = t, monster_x = px, monster_speed = 0, monster_width = 120,
      monster_height = 120, monster_y = 780,
      monster_required = (if t = Beast then Sword else Magic)\<rparr>"

text \<open>The session right after the page has started level 0: the first choice is open.\<close>

definition demo_start :: Game where
  "demo_start =
     \<lparr>levelIndex = 0, monsters = [], spawnTimer = 0, spawnInterval = 1000,
      monstersSpawned = 0, monstersDefeated = 0, monstersToSpawn = 5, nextChoiceAt = 3,
      hearts = 3,
      hero = \<lparr>hero_x = 40, hero_y = 750, hero_width = 150, hero_height = 150,
              hero_weapon = Sword\<rparr>,
      bgX = 0, gameState = Choice, choiceActive = True,
      leftOption = Sword, rightOption = Magic, damageFlash = None\<rparr>"

text \<open>The player has tapped the left option (the sword).\<close>

definition demo_playing :: Game where
  "demo_playing = demo_start\<lparr>gameState := Playing, choiceActive := False\<rparr>"

text \<open>
  Three ghosts arrive one per frame and each costs a heart; \<open>hits2\<close> is the session
  after the second one, with the third ghost on its way, \<open>hits3\<close> the one after the third.
\<close>

definition hits2_events :: "event list" where
  "hits2_events =
     [PointerDown 0 0, Frame 1 (ghost_rnd 0), Frame 1 (ghost_rnd 0), Frame 1 (ghost_rnd 0)]"

definition hits2 :: Game where
  "hits2 = demo_playing\<lparr>monsters := [demo_monster Ghost 200], monstersSpawned := 3,
             monstersDefeated := 2, hearts := 1, bgX := - 6\<rparr>"

definition hits3 :: Game where
  "hits3 = demo_playing\<lparr>monsters := [demo_monster Ghost 200], monstersSpawned := 4,
             monstersDefeated := 3, nextChoiceAt := 5, hearts := 0, bgX := - 8,
             gameState := GameOver, choiceActive := True\<rparr>"

text \<open>
  Two ghosts, two beasts and a last ghost against the sword, with the choice after the
  third defeat: \<open>last_ghost\<close> is the session with one heart left and the fifth monster
  on its way, \<open>level_won\<close> the session one frame later.
\<close>

definition last_ghost_events :: "event list" where
  "last_ghost_events =
     [PointerDown 0 0, Frame 1 (ghost_rnd 0), Frame 1 (ghost_rnd 0), Frame 1 (beast_rnd 0),
      Frame 1 (beast_rnd 0), PointerDown 0 0, Frame 1 (ghost_rnd 0)]"

definition last_ghost :: Game where
  "last_ghost = demo_playing\<lparr>monsters := [demo_monster Ghost 200], monstersSpawned := 5,
             monstersDefeated := 4, nextChoiceAt := 5, hearts := 1, bgX := - 10\<rparr>"

definition level_won :: Game where
  "level_won = demo_playing\<lparr>spawnTimer := 1000, monstersSpawned := 5,
             monstersDefeated := 5, nextChoiceAt := 5, hearts := 0, bgX := - 12,
             gameState := LevelEnd\<rparr>"

text \<open>
  Ghosts that arrive in pairs, 20 pixels apart: \<open>pair_ahead\<close> is the session with one
  heart left and the second pair one frame away from the hero, \<open>pair_hit\<close> the session
  one frame later.
\<close>

definition pair_events :: "event list" where
  "pair_events =
     [PointerDown 0 0, Frame 1 (ghost_rnd (9 / 10)), Frame 1 (ghost_rnd 0),
      Frame 1 (ghost_rnd (9 / 10)), Frame 1 (ghost_rnd 0)]"

definition pair_ahead :: Game where
  "pair_ahead = demo_playing\<lparr>monsters := [demo_monster Ghost 180, demo_monster Ghost 200],
             monstersSpawned := 4, monstersDefeated := 2, hearts := 1, bgX := - 8\<rparr>"

definition pair_hit :: Game where
  "pair_hit = demo_playing\<lparr>monsters := [demo_monster Ghost 380], monstersSpawned := 5,
             monstersDefeated := 4, nextChoiceAt := 5, hearts := - 1, bgX := - 10,
             gameState := GameOver, choiceActive := True\<rparr>"

text \<open>
  Three beasts against the sword, one per frame: \<open>beasts2\<close> is the session after the
  second defeat with the third beast on its way, \<open>beasts3\<close> the session one frame later.
\<close>

definition beasts_events :: "event list" where
  "beasts_events =
     [PointerDown 0 0, Frame 1 (beast_rnd 0), Frame 1 (beast_rnd 0), Frame 1 (beast_rnd 0)]"

definition beasts2 :: Game where
  "beasts2 = demo_playing\<lparr>monsters := [demo_monster Beast 200], monstersSpawned := 3,
             monstersDefeated := 2, bgX := - 6\<rparr>"

definition beasts3 :: Game where
  "beasts3 = demo_playing\<lparr>monsters := [demo_monster Beast 200], monstersSpawned := 4,
             monstersDefeated := 3, nextChoiceAt := 5, bgX := - 8,
             gameState := Choice, choiceActive := True\<rparr>"

text \<open>A ghost and a beast that both overlap the hero, who holds the sword.\<close>

definition clash :: Game where
  "clash = demo_playing\<lparr>monsters := [demo_monster Ghost 0, demo_monster Beast 100],
             monstersSpawned := 2\<rparr>"

text \<open>A ghost that is about to leave the screen, and a beast behind it.\<close>

definition leaving :: Game where
  "leaving = demo_playing\<lparr>monsters := [demo_monster Ghost (- 100), demo_monster Beast 500],
             monstersSpawned := 2\<rparr>"

section \<open>Properties\<close>

subsection \<open>The two loops\<close>

lemma length_splice1: "i < length xs \<Longrightarrow> length (splice1 i xs) = length xs - 1"
  by (simp add: splice1_def)

lemma take_splice1: "take i (splice1 i xs) = take i xs"
  by (simp add: splice1_def min_def)

lemma drop_splice1: "i \<le> length xs \<Longrightarrow> drop i (splice1 i xs) = drop (Suc i) xs"
  by (simp add: splice1_def)

lemma move_loop_eq:
  "n \<le> length (monsters g) \<Longrightarrow>
   move_loop delta sp n g =
     g\<lparr>monsters := filter (\<lambda>m. \<not> offscreen m)
                      (map (Monster_update (delta * 100) sp) (take n (monsters g)))
                    @ drop n (monsters g),
       monstersDefeated := monstersDefeated g
          + length (filter offscreen
                     (map (Monster_update (delta * 100) sp) (take n (monsters g))))\<rparr>"
proof (induction n arbitrary: g)
  case 0
  then show ?case by simp
next
  case (Suc n)
  let ?ms = "monsters g"
  let ?m = "Monster_update (delta * 100) sp (?ms ! n)"
  let ?rhs = "g\<lparr>monsters := filter (\<lambda>m. \<not> offscreen m)
                      (map (Monster_update (delta * 100) sp) (take (Suc n) ?ms))
                    @ drop (Suc n) ?ms,
       monstersDefeated := monstersDefeated g
          + length (filter offscreen
                     (map (Monster_update (delta * 100) sp) (take (Suc n) ?ms)))\<rparr>"
  from Suc.prems have n: "n < length ?ms" by simp
  have tk: "take (Suc n) ?ms = take n ?ms @ [?ms ! n]"
    using n by (simp add: take_Suc_conv_app_nth)
  show ?case
  proof (cases "offscreen ?m")
    case True
    have "move_loop delta sp (Suc n) g =
          move_loop delta sp n (g\<lparr>monsters := splice1 n (?ms[n := ?m]),
                                   monstersDefeated := monstersDefeated g + 1\<rparr>)"
      using True by (simp add: Let_def)
    also have "\<dots> = ?rhs"
      using n True
      by (subst Suc.IH) (simp_all add: length_splice1 take_splice1 drop_splice1 tk)
    finally show ?thesis .
  next
    case False
    have "move_loop delta sp (Suc n) g =
          move_loop delta sp n (g\<lparr>monsters := ?ms[n := ?m]\<rparr>)"
      using False by (simp add: Let_def)
    also have "\<dots> = ?rhs"
      using n False
      by (subst Suc.IH) (simp_all add: tk upd_conv_take_nth_drop)
    finally show ?thesis .
  qed
qed

lemma collision_body_hero: "hero (collision_body hb i g) = hero g"
  by (simp add: collision_body_def Let_def)

lemma collision_body_monsters:
  "monsters (collision_body hb i g) =
     (if hit hb (monsters g ! i) then splice1 i (monsters g) else monsters g)"
  by (simp add: collision_body_def Let_def hit_def)

lemma collision_loop_eq:
  "n \<le> length (monsters g) \<Longrightarrow> \<forall>m \<in> set (monsters g). required_ok m \<Longrightarrow>
   collision_loop hb n g =
     g\<lparr>monsters := filter (\<lambda>m. \<not> hit hb m) (take n (monsters g)) @ drop n (monsters g),
       hearts := hearts g
          - int (length (filter (\<lambda>m. hit hb m \<and> wrong_weapon (hero g) m) (take n (monsters g)))),
       monstersDefeated := monstersDefeated g + length (filter (hit hb) (take n (monsters g))),
       damageFlash := (if \<exists>m \<in> set (take n (monsters g)). hit hb m \<and> wrong_weapon (hero g) m
                       then Some (2 / 10) else damageFlash g)\<rparr>"
proof (induction n arbitrary: g)
  case 0
  then show ?case by simp
next
  case (Suc n)
  let ?ms = "monsters g"
  let ?g' = "collision_body hb n g"
  from Suc.prems have n: "n < length ?ms" by simp
  have tk: "take (Suc n) ?ms = take n ?ms @ [?ms ! n]"
    using n by (simp add: take_Suc_conv_app_nth)
  have req: "required_ok (?ms ! n)"
    using Suc.prems n by simp
  have step: "collision_loop hb (Suc n) g = collision_loop hb n ?g'"
    by simp
  show ?case
  proof (cases "hit hb (?ms ! n)")
    case False
    then have "?g' = g"
      by (simp add: collision_body_def hit_def Let_def)
    then show ?thesis
      using Suc.IH [of g] Suc.prems n False
      by (simp add: step tk Cons_nth_drop_Suc)
  next
    case True
    have len: "n \<le> length (monsters ?g')"
      using n True by (simp add: collision_body_monsters length_splice1)
    have ok: "\<forall>m \<in> set (monsters ?g'). required_ok m"
      using Suc.prems(2) True n
      by (auto simp: collision_body_monsters splice1_def dest: in_set_takeD in_set_dropD)
    have tk': "take n (monsters ?g') = take n ?ms"
      using True by (simp add: collision_body_monsters take_splice1)
    have dr': "drop n (monsters ?g') = drop (Suc n) ?ms"
      using True n by (simp add: collision_body_monsters drop_splice1)
    show ?thesis
    proof (cases "wrong_weapon (hero g) (?ms ! n)")
      case wrong: True
      have g': "?g' = g\<lparr>monsters := splice1 n ?ms, hearts := hearts g - 1,
                        monstersDefeated := monstersDefeated g + 1,
                        damageFlash := Some (2 / 10)\<rparr>"
        using True wrong req
        by (simp add: collision_body_def hit_def wrong_weapon_def required_ok_def Let_def)
      show ?thesis
        unfolding step Suc.IH [OF len ok] tk' dr' collision_body_hero
        using True wrong by (simp add: g' tk)
    next
      case right: False
      have g': "?g' = g\<lparr>monsters := splice1 n ?ms,
                        monstersDefeated := monstersDefeated g + 1\<rparr>"
        using True right req
        by (simp add: collision_body_def hit_def wrong_weapon_def required_ok_def Let_def)
      show ?thesis
        unfolding step Suc.IH [OF len ok] tk' dr' collision_body_hero
        using True right by (auto simp: g' tk)
    qed
  qed
qed

subsection \<open>What each part of a playing update changes\<close>

lemma required_ok_constructor: "required_ok (Monster_constructor cv r t)"
  by (simp add: required_ok_def Monster_constructor_def)

lemma required_ok_update: "required_ok (Monster_update dt sp m) = required_ok m"
  by (simp add: required_ok_def Monster_update_def)

lemma scroll_step_fields:
  "scroll_step cv delta sp g = g\<lparr>bgX := bgX (scroll_step cv delta sp g)\<rparr>"
  by (simp add: scroll_step_def Let_def)

lemma spawn_step_cases:
  "(monstersSpawned g < monstersToSpawn g \<and>
    spawn_step cv delta r g =
      g\<lparr>monsters := monsters g @ [Monster_constructor cv (rnd_x r)
                                     (if rnd_type r < 5 / 10 then Beast else Ghost)],
        spawnTimer := 0, monstersSpawned := monstersSpawned g + 1\<rparr>)
   \<or> spawn_step cv delta r g = g\<lparr>spawnTimer := spawnTimer g + delta * 1000\<rparr>"
  by (simp add: spawn_step_def spawnMonster_def Let_def)

lemma move_loop_full:
  "move_loop delta sp (length (monsters g)) g =
     g\<lparr>monsters := filter (\<lambda>m. \<not> offscreen m)
                      (map (Monster_update (delta * 100) sp) (monsters g)),
       monstersDefeated := monstersDefeated g
          + length (filter offscreen (map (Monster_update (delta * 100) sp) (monsters g)))\<rparr>"
  using move_loop_eq [of "length (monsters g)" g delta sp] by simp

lemma collision_loop_full:
  "\<forall>m \<in> set (monsters g). required_ok m \<Longrightarrow>
   collision_loop hb (length (monsters g)) g =
     g\<lparr>monsters := filter (\<lambda>m. \<not> hit hb m) (monsters g),
       hearts := hearts g
          - int (length (filter (\<lambda>m. hit hb m \<and> wrong_weapon (hero g) m) (monsters g))),
       monstersDefeated := monstersDefeated g + length (filter (hit hb) (monsters g)),
       damageFlash := (if \<exists>m \<in> set (monsters g). hit hb m \<and> wrong_weapon (hero g) m
                       then Some (2 / 10) else damageFlash g)\<rparr>"
  using collision_loop_eq [of "length (monsters g)" g hb] by simp

lemma flash_step_fields:
  "flash_step delta g = g\<lparr>damageFlash := damageFlash (flash_step delta g)\<rparr>"
  by (simp add: flash_step_def split: option.split)

lemma choice_step_cases:
  "(\<not> choiceActive g \<and> nextChoiceAt g \<le> monstersDefeated g \<and>
    monstersDefeated g < monstersToSpawn g \<and>
    choice_step r g =
      g\<lparr>nextChoiceAt := min (nextChoiceAt g + 3) (monstersToSpawn g),
        gameState := Choice, choiceActive := True,
        leftOption := leftOption (choice_step r g),
        rightOption := rightOption (choice_step r g)\<rparr>)
   \<or> (\<not> (\<not> choiceActive g \<and> nextChoiceAt g \<le> monstersDefeated g \<and>
          monstersDefeated g < monstersToSpawn g) \<and> choice_step r g = g)"
  by (simp add: choice_step_def randomizeChoices_def Let_def)

lemma gameOver_step_fields:
  "gameOver_step g = g\<lparr>gameState := (if hearts g \<le> 0 then GameOver else gameState g)\<rparr>"
  by (simp add: gameOver_step_def)

lemma levelEnd_step_fields:
  "levelEnd_step g = g\<lparr>gameState := (if level_complete g then LevelEnd else gameState g)\<rparr>"
  by (simp add: levelEnd_step_def level_complete_def)

lemma playing_step_tail:
  "playing_step cv delta sp r g =
     levelEnd_step (gameOver_step (choice_step (rnd_choice r)
       (flash_step delta (after_collisions cv delta sp r g))))"
  by (simp add: playing_step_def after_collisions_def Let_def)

lemma tail_fields:
  fixes a :: Game and rc delta :: real
  defines "t \<equiv> levelEnd_step (gameOver_step (choice_step rc (flash_step delta a)))"
  shows "hearts t = hearts a" and "monsters t = monsters a"
    and "monstersDefeated t = monstersDefeated a" and "monstersSpawned t = monstersSpawned a"
    and "monstersToSpawn t = monstersToSpawn a" and "levelIndex t = levelIndex a"
    and "spawnInterval t = spawnInterval a" and "hero t = hero a" and "bgX t = bgX a"
    and "spawnTimer t = spawnTimer a"
    and "choiceActive t = (choiceActive a \<or> choice_due a)"
    and "nextChoiceAt t =
           (if choice_due a then min (nextChoiceAt a + 3) (monstersToSpawn a)
            else nextChoiceAt a)"
    and "gameState t =
           (if level_complete a then LevelEnd
            else if hearts a \<le> 0 then GameOver
            else if choice_due a then Choice
            else gameState a)"
  unfolding t_def
  by (auto simp: levelEnd_step_def gameOver_step_def choice_step_def flash_step_def
        randomizeChoices_def level_complete_def choice_due_def Let_def split: option.split)

lemma after_collisions_fields:
  fixes g :: Game and cv :: canvas and delta sp :: real and r :: rnd
  defines "a \<equiv> after_collisions cv delta sp r g"
  shows "levelIndex a = levelIndex g" and "monstersToSpawn a = monstersToSpawn g"
    and "spawnInterval a = spawnInterval g" and "hero a = hero g"
    and "gameState a = gameState g" and "choiceActive a = choiceActive g"
    and "nextChoiceAt a = nextChoiceAt g" and "bgX a = bgX g"
    and "leftOption a = leftOption g" and "rightOption a = rightOption g"
proof -
  define g1 where "g1 = spawn_step cv delta r g"
  define g2 where "g2 = move_loop delta sp (length (monsters g1)) g1"
  have a: "a = collision_loop (Hero_getBounds (hero g2)) (length (monsters g2)) g2"
    by (simp add: a_def after_collisions_def g1_def g2_def Let_def)
  have f1: "levelIndex g1 = levelIndex g \<and> monstersToSpawn g1 = monstersToSpawn g \<and>
      spawnInterval g1 = spawnInterval g \<and> hero g1 = hero g \<and> gameState g1 = gameState g \<and>
      choiceActive g1 = choiceActive g \<and> nextChoiceAt g1 = nextChoiceAt g \<and> bgX g1 = bgX g \<and>
      leftOption g1 = leftOption g \<and> rightOption g1 = rightOption g"
    by (simp add: g1_def spawn_step_def spawnMonster_def Let_def)
  have f2: "levelIndex g2 = levelIndex g1 \<and> monstersToSpawn g2 = monstersToSpawn g1 \<and>
      spawnInterval g2 = spawnInterval g1 \<and> hero g2 = hero g1 \<and> gameState g2 = gameState g1 \<and>
      choiceActive g2 = choiceActive g1 \<and> nextChoiceAt g2 = nextChoiceAt g1 \<and> bgX g2 = bgX g1 \<and>
      leftOption g2 = leftOption g1 \<and> rightOption g2 = rightOption g1"
    by (simp add: g2_def move_loop_full)
  have f3: "levelIndex (collision_loop hb n x) = levelIndex x \<and>
      monstersToSpawn (collision_loop hb n x) = monstersToSpawn x \<and>
      spawnInterval (collision_loop hb n x) = spawnInterval x \<and>
      hero (collision_loop hb n x) = hero x \<and>
      gameState (collision_loop hb n x) = gameState x \<and>
      choiceActive (collision_loop hb n x) = choiceActive x \<and>
      nextChoiceAt (collision_loop hb n x) = nextChoiceAt x \<and>
      bgX (collision_loop hb n x) = bgX x \<and>
      leftOption (collision_loop hb n x) = leftOption x \<and>
      rightOption (collision_loop hb n x) = rightOption x" for hb n x
    by (induction n arbitrary: x) (simp_all add: collision_body_def Let_def)
  show "levelIndex a = levelIndex g" and "monstersToSpawn a = monstersToSpawn g"
    and "spawnInterval a = spawnInterval g" and "hero a = hero g"
    and "gameState a = gameState g" and "choiceActive a = choiceActive g"
    and "nextChoiceAt a = nextChoiceAt g" and "bgX a = bgX g"
    and "leftOption a = leftOption g" and "rightOption a = rightOption g"
    using f1 f2 f3 [of "Hero_getBounds (hero g2)" "length (monsters g2)" g2]
    by (simp_all add: a)
qed

lemma length_filter_conj_le:
  "length (filter (\<lambda>x. P x \<and> Q x) xs) \<le> length (filter P xs)"
  by (induction xs) (auto simp: le_SucI)

lemma after_collisions_inv:
  fixes g :: Game and cv :: canvas and delta sp :: real and r :: rnd
  assumes req: "\<forall>m \<in> set (monsters g). required_ok m"
  defines "a \<equiv> after_collisions cv delta sp r g"
  shows "\<forall>m \<in> set (monsters a). required_ok m"
    and "counts_ok g \<Longrightarrow> counts_ok a"
    and "hearts a \<le> hearts g"
    and "hearts g + int (monstersDefeated g) \<le> hearts a + int (monstersDefeated a)"
    and "monstersToSpawn g \<le> monstersSpawned g \<Longrightarrow>
           monstersSpawned a = monstersSpawned g \<and> length (monsters a) \<le> length (monsters g)"
    and "\<forall>m \<in> set (monsters a). \<not> offscreen m"
proof -
  define g1 where "g1 = spawn_step cv delta r g"
  define g2 where "g2 = move_loop delta sp (length (monsters g1)) g1"
  define hb where "hb = Hero_getBounds (hero g2)"
  have a: "a = collision_loop hb (length (monsters g2)) g2"
    by (simp add: a_def after_collisions_def g1_def g2_def hb_def Let_def)
  have r1: "\<forall>m \<in> set (monsters g1). required_ok m"
    using req spawn_step_cases [of g cv delta r]
    by (auto simp: g1_def required_ok_constructor)
  have g2: "g2 = g1\<lparr>monsters := filter (\<lambda>m. \<not> offscreen m)
                      (map (Monster_update (delta * 100) sp) (monsters g1)),
       monstersDefeated := monstersDefeated g1
          + length (filter offscreen (map (Monster_update (delta * 100) sp) (monsters g1)))\<rparr>"
    by (simp add: g2_def move_loop_full)
  have r2: "\<forall>m \<in> set (monsters g2). required_ok m"
    using r1 by (auto simp: g2 required_ok_update)
  note a_eq = a [unfolded collision_loop_full [OF r2, of hb]]
  show "\<forall>m \<in> set (monsters a). required_ok m"
    using r2 by (simp add: a_eq)
  show "\<forall>m \<in> set (monsters a). \<not> offscreen m"
    by (simp add: a_eq g2)
  have c1: "counts_ok g1" if "counts_ok g"
    using that spawn_step_cases [of g cv delta r]
    by (auto simp: g1_def counts_ok_def)
  have l2: "monstersDefeated g2 + length (monsters g2) = monstersDefeated g1 + length (monsters g1)"
    using sum_length_filter_compl [of offscreen "map (Monster_update (delta * 100) sp) (monsters g1)"]
    by (simp add: g2)
  have la: "monstersDefeated a + length (monsters a) = monstersDefeated g2 + length (monsters g2)"
    using sum_length_filter_compl [of "hit hb" "monsters g2"]
    by (simp add: a_eq)
  have s: "monstersSpawned a = monstersSpawned g1" "monstersToSpawn a = monstersToSpawn g1"
    by (simp_all add: a_eq g2)
  show "counts_ok a" if "counts_ok g"
    using c1 [OF that] l2 la s by (simp add: counts_ok_def)
  have h1: "hearts g1 = hearts g" "monstersDefeated g1 = monstersDefeated g"
    using spawn_step_cases [of g cv delta r] by (auto simp: g1_def)
  have h2: "hearts g2 = hearts g1" "monstersDefeated g1 \<le> monstersDefeated g2"
    by (simp_all add: g2)
  have le: "length (filter (\<lambda>m. hit hb m \<and> wrong_weapon (hero g2) m) (monsters g2))
             \<le> length (filter (hit hb) (monsters g2))"
    by (rule length_filter_conj_le)
  show "hearts a \<le> hearts g"
    using h1 h2 by (simp add: a_eq)
  show "hearts g + int (monstersDefeated g) \<le> hearts a + int (monstersDefeated a)"
    using h1 h2 le by (simp add: a_eq)
  show "monstersSpawned a = monstersSpawned g \<and> length (monsters a) \<le> length (monsters g)"
    if "monstersToSpawn g \<le> monstersSpawned g"
  proof -
    have "g1 = g\<lparr>spawnTimer := spawnTimer g + delta * 1000\<rparr>"
      using that spawn_step_cases [of g cv delta r] by (auto simp: g1_def)
    then have "monstersSpawned g1 = monstersSpawned g" "monsters g1 = monsters g"
      by simp_all
    moreover have "length (monsters a) \<le> length (monsters g2)"
      by (simp add: a_eq)
    moreover have "length (monsters g2) \<le> length (monsters g1)"
      using length_filter_le [of "\<lambda>m. \<not> offscreen m" "map (Monster_update (delta * 100) sp) (monsters g1)"]
      by (simp add: g2)
    ultimately show ?thesis using s by simp
  qed
qed

subsection \<open>One update\<close>

lemma scroll_step_same:
  fixes g :: Game and cv :: canvas and delta sp :: real
  defines "s \<equiv> scroll_step cv delta sp g"
  shows "levelIndex s = levelIndex g" and "monsters s = monsters g"
    and "spawnTimer s = spawnTimer g" and "spawnInterval s = spawnInterval g"
    and "monstersSpawned s = monstersSpawned g" and "monstersDefeated s = monstersDefeated g"
    and "monstersToSpawn s = monstersToSpawn g" and "nextChoiceAt s = nextChoiceAt g"
    and "hearts s = hearts g" and "hero s = hero g" and "gameState s = gameState g"
    and "choiceActive s = choiceActive g" and "leftOption s = leftOption g"
    and "rightOption s = rightOption g" and "damageFlash s = damageFlash g"
  unfolding s_def by (simp_all add: scroll_step_def Let_def)

lemma update_total:
  "levelIndex g < length LEVELS \<Longrightarrow> \<exists>g'. update cv delta r g = Inr g'"
  by (simp add: update_def Let_def)

lemma update_paused:
  assumes "update cv delta r g = Inr g'" and "gameState g \<noteq> Playing"
  shows "g' = scroll_step cv delta (speed (LEVELS ! levelIndex g)) g"
  using assms by (simp add: update_def Let_def scroll_step_same split: if_splits)

lemma update_playing:
  assumes "update cv delta r g = Inr g'" and "gameState g = Playing"
  shows "g' = playing_step cv delta (speed (LEVELS ! levelIndex g)) r
                (scroll_step cv delta (speed (LEVELS ! levelIndex g)) g)"
  using assms by (simp add: update_def Let_def scroll_step_same split: if_splits)

text \<open>
  The outcome of a playing update, read off the session \<open>a\<close> as it is after the
  collision loop.
\<close>

lemma update_playing_outcome:
  assumes upd: "update cv delta r g = Inr g'" and play: "gameState g = Playing"
  defines "a \<equiv> after_collisions cv delta (speed (LEVELS ! levelIndex g)) r
                 (scroll_step cv delta (speed (LEVELS ! levelIndex g)) g)"
  shows "hearts g' = hearts a" and "monsters g' = monsters a"
    and "monstersDefeated g' = monstersDefeated a" and "monstersSpawned g' = monstersSpawned a"
    and "monstersToSpawn g' = monstersToSpawn g" and "levelIndex g' = levelIndex g"
    and "spawnInterval g' = spawnInterval g" and "hero g' = hero g"
    and "choiceActive a = choiceActive g" and "nextChoiceAt a = nextChoiceAt g"
    and "monstersToSpawn a = monstersToSpawn g"
    and "choiceActive g' = (choiceActive g \<or> choice_due a)"
    and "nextChoiceAt g' =
           (if choice_due a then min (nextChoiceAt g + 3) (monstersToSpawn g)
            else nextChoiceAt g)"
    and "gameState g' =
           (if level_complete a then LevelEnd
            else if hearts a \<le> 0 then GameOver
            else if choice_due a then Choice
            else Playing)"
proof -
  let ?sp = "speed (LEVELS ! levelIndex g)"
  let ?s = "scroll_step cv delta ?sp g"
  have g': "g' = levelEnd_step (gameOver_step (choice_step (rnd_choice r) (flash_step delta a)))"
    using update_playing [OF upd play] by (simp add: playing_step_tail a_def)
  note af = after_collisions_fields [of cv delta ?sp r ?s, folded a_def]
  note sf = scroll_step_same [of cv delta ?sp g]
  note tf = tail_fields [of "rnd_choice r" delta a, folded g']
  show "hearts g' = hearts a" and "monsters g' = monsters a"
    and "monstersDefeated g' = monstersDefeated a" and "monstersSpawned g' = monstersSpawned a"
    by (simp_all add: tf)
  show "monstersToSpawn g' = monstersToSpawn g" and "levelIndex g' = levelIndex g"
    and "spawnInterval g' = spawnInterval g" and "hero g' = hero g"
    by (simp_all add: tf af sf)
  show "choiceActive a = choiceActive g" and "nextChoiceAt a = nextChoiceAt g"
    and "monstersToSpawn a = monstersToSpawn g"
    by (simp_all add: af sf)
  show "choiceActive g' = (choiceActive g \<or> choice_due a)"
    by (simp add: tf af sf)
  show "nextChoiceAt g' =
           (if choice_due a then min (nextChoiceAt g + 3) (monstersToSpawn g)
            else nextChoiceAt g)"
    by (simp add: tf af sf)
  show "gameState g' =
           (if level_complete a then LevelEnd
            else if hearts a \<le> 0 then GameOver
            else if choice_due a then Choice
            else Playing)"
    using play by (simp add: tf af sf)
qed

lemma update_playing_inv:
  assumes upd: "update cv delta r g = Inr g'" and play: "gameState g = Playing"
    and req: "\<forall>m \<in> set (monsters g). required_ok m"
  shows "\<forall>m \<in> set (monsters g'). required_ok m"
    and "counts_ok g \<Longrightarrow> counts_ok g'"
    and "hearts g' \<le> hearts g"
    and "hearts g + int (monstersDefeated g) \<le> hearts g' + int (monstersDefeated g')"
    and "monstersToSpawn g \<le> monstersSpawned g \<Longrightarrow>
           monstersSpawned g' = monstersSpawned g \<and> length (monsters g') \<le> length (monsters g)"
    and "\<forall>m \<in> set (monsters g'). \<not> offscreen m"
proof -
  let ?sp = "speed (LEVELS ! levelIndex g)"
  let ?s = "scroll_step cv delta ?sp g"
  note sf = scroll_step_same [of cv delta ?sp g]
  note out = update_playing_outcome [OF upd play]
  have req': "\<forall>m \<in> set (monsters ?s). required_ok m"
    using req by (simp add: sf)
  note ai = after_collisions_inv [OF req', of cv delta ?sp r]
  show "\<forall>m \<in> set (monsters g'). required_ok m"
    using ai(1) by (simp add: out)
  show "counts_ok g'" if "counts_ok g"
  proof -
    from that have "counts_ok ?s" by (simp add: counts_ok_def sf)
    from ai(2) [OF this] show ?thesis
      by (simp add: counts_ok_def out)
  qed
  show "hearts g' \<le> hearts g"
    using ai(3) by (simp add: out sf)
  show "hearts g + int (monstersDefeated g) \<le> hearts g' + int (monstersDefeated g')"
    using ai(4) by (simp add: out sf)
  show "monstersSpawned g' = monstersSpawned g \<and> length (monsters g') \<le> length (monsters g)"
    if "monstersToSpawn g \<le> monstersSpawned g"
    using ai(5) that by (simp add: out sf)
  show "\<forall>m \<in> set (monsters g'). \<not> offscreen m"
    using ai(6) by (simp add: out)
qed

subsection \<open>The invariant of a session\<close>

lemma startLevel_inv:
  assumes "startLevel cv r index g = Inr g'"
  shows "session_inv g'"
proof -
  from assms have i: "index < length LEVELS"
    by (simp add: startLevel_def split: if_splits)
  with assms show ?thesis
    by (auto simp: startLevel_def randomizeChoices_def session_inv_def counts_ok_def Let_def
          split: if_splits)
qed

lemma handleChoiceSelection_inv:
  "session_inv g \<Longrightarrow> session_inv (handleChoiceSelection c g)"
  by (simp add: handleChoiceSelection_def session_inv_def counts_ok_def Let_def)

lemma update_inv:
  assumes inv: "session_inv g" and upd: "update cv delta r g = Inr g'"
  shows "session_inv g'"
proof (cases "gameState g = Playing")
  case False
  note sf = scroll_step_same [of cv delta "speed (LEVELS ! levelIndex g)" g]
  show ?thesis
    using inv False unfolding update_paused [OF upd False]
    by (simp add: session_inv_def counts_ok_def sf)
next
  case True
  from inv have req: "\<forall>m \<in> set (monsters g). required_ok m"
    and cnt: "counts_ok g" and noact: "\<not> choiceActive g"
    using True by (simp_all add: session_inv_def)
  note out = update_playing_outcome [OF upd True]
  note pi = update_playing_inv [OF upd True req]
  have "levelIndex g' < length LEVELS"
    and "monstersToSpawn g' = monsterCount (LEVELS ! levelIndex g')"
    and "spawnInterval g' = max 400 (1000 - real (levelIndex g') * 50)"
    using inv by (simp_all add: session_inv_def out(5,6,7))
  moreover have "counts_ok g'"
    by (rule pi(2) [OF cnt])
  moreover have "hearts g' \<le> 3"
    using pi(3) inv by (simp add: session_inv_def)
  moreover have "3 \<le> hearts g' + int (monstersDefeated g')"
    using pi(4) inv by (simp add: session_inv_def)
  moreover have "gameState g' = Choice \<or> gameState g' = Playing \<longrightarrow> 1 \<le> hearts g'"
    by (auto simp: out(14) out(1) split: if_splits)
  moreover have "gameState g' \<noteq> Intro"
    by (simp add: out(14))
  moreover have "gameState g' = Playing \<longrightarrow> \<not> choiceActive g'"
    using noact by (auto simp: out(14) out(12) split: if_splits)
  moreover note pi(1)
  ultimately show ?thesis
    by (simp add: session_inv_def)
qed

lemma pointerdown_inv:
  "session_inv g \<Longrightarrow> pointerdown cv r px g = Inr g' \<Longrightarrow> session_inv g'"
  by (auto simp: pointerdown_def handleChoiceSelection_inv startLevel_inv split: if_splits)

lemma keydown_inv:
  "session_inv g \<Longrightarrow> keydown cv r k g = Inr g' \<Longrightarrow> session_inv g'"
  unfolding keydown_def
  by (auto simp: handleChoiceSelection_inv startLevel_inv split: if_splits)

lemma step_inv:
  assumes "session_inv (snd w)" and "step e w = Inr w'"
  shows "session_inv (snd w')"
proof (cases w)
  case (Pair cv g)
  with assms show ?thesis
    by (cases e) (auto split: sum.splits dest: update_inv pointerdown_inv keydown_inv)
qed

lemma reachable_inv: "reachable w \<Longrightarrow> session_inv (snd w)"
proof (induction rule: reachable.induct)
  case (reachable_start r cv w)
  then show ?case
    by (auto simp: start_def split: sum.splits dest: startLevel_inv)
next
  case (reachable_step w e w')
  then show ?case by (simp add: step_inv)
qed

text \<open>
  The hypothesis of the collision theorem holds whenever the loop runs in a session:
  in every reachable session, and still after the spawn and the moves of a playing
  update, the field \<open>required\<close> of each monster is the weapon derived from its type.
\<close>

lemma reachable_required_ok:
  "reachable (cv, g) \<Longrightarrow> \<forall>m \<in> set (monsters g). required_ok m"
  using reachable_inv [of "(cv, g)"] by (simp add: session_inv_def)

lemma collision_input_required_ok:
  assumes "\<forall>m \<in> set (monsters g). required_ok m"
  shows "\<forall>m \<in> set (monsters (move_loop delta sp (length (monsters (spawn_step cv delta r g)))
                                (spawn_step cv delta r g))). required_ok m"
proof -
  have "\<forall>m \<in> set (monsters (spawn_step cv delta r g)). required_ok m"
    using assms spawn_step_cases [of g cv delta r]
    by (auto simp: required_ok_constructor)
  then show ?thesis
    by (auto simp: move_loop_full required_ok_update)
qed

lemma run_reachable:
  "reachable w \<Longrightarrow> list_all event_ok es \<Longrightarrow> run es w = Inr w' \<Longrightarrow> reachable w'"
proof (induction es arbitrary: w)
  case Nil
  then show ?case by simp
next
  case (Cons e es)
  from Cons.prems(3) obtain w1 where s: "step e w = Inr w1" and r: "run es w1 = Inr w'"
    by (auto split: sum.splits)
  have "reachable w1"
    using Cons.prems(1,2) s by (auto intro: reachable_step)
  then show ?case
    using Cons.IH [OF _ _ r] Cons.prems(2) by simp
qed

lemma session_reachable:
  assumes "0 \<le> r" and "r < 1" and "list_all event_ok es" and "session cv r es = Inr w"
  shows "reachable w"
proof -
  from assms(4) obtain w0 where s: "start cv r = Inr w0" and rn: "run es w0 = Inr w"
    by (auto simp: session_def split: sum.splits)
  have "reachable w0"
    using assms(1,2) s by (rule reachable_start)
  then show ?thesis
    using assms(3) rn by (rule run_reachable)
qed

text \<open>No event of a session throws: every handler returns a session.\<close>

lemma reachable_step_total:
  assumes "reachable w"
  shows "\<exists>w'. step e w = Inr w'"
proof (cases w)
  case (Pair cv g)
  from reachable_inv [OF assms] Pair have i: "levelIndex g < length LEVELS"
    by (simp add: session_inv_def)
  have z: "0 < length LEVELS" by (simp add: LEVELS_def)
  show ?thesis
  proof (cases e)
    case (Frame delta r)
    with Pair i show ?thesis by (simp add: update_def Let_def)
  next
    case (PointerDown px r)
    with Pair i z show ?thesis
      by (auto simp: pointerdown_def startLevel_def Let_def)
  next
    case (KeyDown k r)
    with Pair i z show ?thesis
      by (auto simp: keydown_def startLevel_def Let_def)
  next
    case (Resize wd ht)
    with Pair show ?thesis by simp
  qed
qed

subsection \<open>The concrete sessions, evaluated\<close>

lemmas demo_defs =
  canvas0_def ghost_rnd_def beast_rnd_def demo_monster_def demo_start_def demo_playing_def
  hits2_def hits3_def last_ghost_def level_won_def pair_ahead_def pair_hit_def

lemmas game_defs =
  start_def startLevel_def randomizeChoices_def resetPosition_def
  Game_constructor_def Hero_constructor_def LEVELS_def update_def scroll_step_def
  playing_step_def spawn_step_def spawnMonster_def Monster_constructor_def Monster_update_def
  offscreen_def collision_body_def collides_def Monster_getBounds_def Hero_getBounds_def
  splice1_def flash_step_def choice_step_def gameOver_step_def levelEnd_step_def
  pointerdown_def handleChoiceSelection_def Let_def

lemma session_eval:
  "start cv r = Inr w \<Longrightarrow> run es w = res \<Longrightarrow> session cv r es = res"
  by (simp add: session_def)

lemma run_Frame:
  "update cv delta r g = Inr g' \<Longrightarrow> run es (cv, g') = res \<Longrightarrow>
   run (Frame delta r # es) (cv, g) = res"
  by simp

lemma run_PointerDown:
  "pointerdown cv r px g = Inr g' \<Longrightarrow> run es (cv, g') = res \<Longrightarrow>
   run (PointerDown px r # es) (cv, g) = res"
  by simp

lemma demo_start_eval: "start canvas0 0 = Inr (canvas0, demo_start)"
  by (simp add: game_defs demo_defs cong: let_weak_cong)

lemma demo_playing_eval: "pointerdown canvas0 0 0 demo_start = Inr demo_playing"
  by (simp add: game_defs demo_defs cong: let_weak_cong)

lemma ghost_frame1:
  "update canvas0 1 (ghost_rnd 0) demo_playing =
     Inr (demo_playing\<lparr>monsters := [demo_monster Ghost 200], monstersSpawned := 1,
            bgX := - 2\<rparr>)"
  by (simp add: game_defs demo_defs cong: let_weak_cong)

lemma ghost_frame2:
  "update canvas0 1 (ghost_rnd 0)
     (demo_playing\<lparr>monsters := [demo_monster Ghost 200], monstersSpawned := 1, bgX := - 2\<rparr>) =
     Inr (demo_playing\<lparr>monsters := [demo_monster Ghost 200], monstersSpawned := 2,
            monstersDefeated := 1, hearts := 2, bgX := - 4\<rparr>)"
  by (simp add: game_defs demo_defs cong: let_weak_cong)

lemma hits2_session: "session canvas0 0 hits2_events = Inr (canvas0, hits2)"
proof -
  have "update canvas0 1 (ghost_rnd 0)
          (demo_playing\<lparr>monsters := [demo_monster Ghost 200], monstersSpawned := 2,
             monstersDefeated := 1, hearts := 2, bgX := - 4\<rparr>) = Inr hits2"
    by (simp add: game_defs demo_defs cong: let_weak_cong)
  then show ?thesis
    unfolding hits2_events_def
    by (intro session_eval [OF demo_start_eval] run_PointerDown [OF demo_playing_eval]
          run_Frame [OF ghost_frame1] run_Frame [OF ghost_frame2] run_Frame) simp_all
qed

lemma hits3_update: "update canvas0 1 (ghost_rnd 0) hits2 = Inr hits3"
  by (simp add: game_defs demo_defs cong: let_weak_cong)

lemma last_ghost_session: "session canvas0 0 last_ghost_events = Inr (canvas0, last_ghost)"
proof -
  let ?s2 = "demo_playing\<lparr>monsters := [demo_monster Ghost 200], monstersSpawned := 2,
               monstersDefeated := 1, hearts := 2, bgX := - 4\<rparr>"
  let ?s3 = "demo_playing\<lparr>monsters := [demo_monster Beast 200], monstersSpawned := 3,
               monstersDefeated := 2, hearts := 1, bgX := - 6\<rparr>"
  let ?s4 = "demo_playing\<lparr>monsters := [demo_monster Beast 200], monstersSpawned := 4,
               monstersDefeated := 3, nextChoiceAt := 5, hearts := 1, bgX := - 8,
               gameState := Choice, choiceActive := True\<rparr>"
  let ?s5 = "demo_playing\<lparr>monsters := [demo_monster Beast 200], monstersSpawned := 4,
               monstersDefeated := 3, nextChoiceAt := 5, hearts := 1, bgX := - 8\<rparr>"
  have u3: "update canvas0 1 (beast_rnd 0) ?s2 = Inr ?s3"
    by (simp add: game_defs demo_defs cong: let_weak_cong)
  have u4: "update canvas0 1 (beast_rnd 0) ?s3 = Inr ?s4"
    by (simp add: game_defs demo_defs cong: let_weak_cong)
  have p5: "pointerdown canvas0 0 0 ?s4 = Inr ?s5"
    by (simp add: game_defs demo_defs cong: let_weak_cong)
  have u6: "update canvas0 1 (ghost_rnd 0) ?s5 = Inr last_ghost"
    by (simp add: game_defs demo_defs cong: let_weak_cong)
  show ?thesis
    unfolding last_ghost_events_def
    by (intro session_eval [OF demo_start_eval] run_PointerDown [OF demo_playing_eval]
          run_Frame [OF ghost_frame1] run_Frame [OF ghost_frame2] run_Frame [OF u3]
          run_Frame [OF u4] run_PointerDown [OF p5] run_Frame [OF u6]) simp
qed

lemma level_won_update: "update canvas0 1 (ghost_rnd 0) last_ghost = Inr level_won"
  by (simp add: game_defs demo_defs cong: let_weak_cong)

lemma pair_session: "session canvas0 0 pair_events = Inr (canvas0, pair_ahead)"
proof -
  let ?s1 = "demo_playing\<lparr>monsters := [demo_monster Ghost 380], monstersSpawned := 1,
               bgX := - 2\<rparr>"
  let ?s2 = "demo_playing\<lparr>monsters := [demo_monster Ghost 180, demo_monster Ghost 200],
               monstersSpawned := 2, bgX := - 4\<rparr>"
  let ?s3 = "demo_playing\<lparr>monsters := [demo_monster Ghost 380], monstersSpawned := 3,
               monstersDefeated := 2, hearts := 1, bgX := - 6\<rparr>"
  have u1: "update canvas0 1 (ghost_rnd (9 / 10)) demo_playing = Inr ?s1"
    by (simp add: game_defs demo_defs cong: let_weak_cong)
  have u2: "update canvas0 1 (ghost_rnd 0) ?s1 = Inr ?s2"
    by (simp add: game_defs demo_defs cong: let_weak_cong)
  have u3: "update canvas0 1 (ghost_rnd (9 / 10)) ?s2 = Inr ?s3"
    by (simp add: game_defs demo_defs cong: let_weak_cong)
  have u4: "update canvas0 1 (ghost_rnd 0) ?s3 = Inr pair_ahead"
    by (simp add: game_defs demo_defs cong: let_weak_cong)
  show ?thesis
    unfolding pair_events_def
    by (intro session_eval [OF demo_start_eval] run_PointerDown [OF demo_playing_eval]
          run_Frame [OF u1] run_Frame [OF u2] run_Frame [OF u3] run_Frame [OF u4]) simp
qed

lemma pair_update: "update canvas0 1 (ghost_rnd (9 / 10)) pair_ahead = Inr pair_hit"
  by (simp add: game_defs demo_defs cong: let_weak_cong)

lemma demo_events_ok:
  "list_all event_ok hits2_events" "list_all event_ok last_ghost_events"
  "list_all event_ok pair_events"
  by (simp_all add: hits2_events_def last_ghost_events_def pair_events_def rnd_ok_def
        ghost_rnd_def beast_rnd_def)

lemma demo_reachable:
  "reachable (canvas0, demo_start)" "reachable (canvas0, hits2)"
  "reachable (canvas0, last_ghost)" "reachable (canvas0, pair_ahead)"
proof -
  show "reachable (canvas0, demo_start)"
    by (rule reachable_start [of 0, OF _ _ demo_start_eval]) simp_all
  show "reachable (canvas0, hits2)"
    by (rule session_reachable [OF _ _ demo_events_ok(1) hits2_session]) simp_all
  show "reachable (canvas0, last_ghost)"
    by (rule session_reachable [OF _ _ demo_events_ok(2) last_ghost_session]) simp_all
  show "reachable (canvas0, pair_ahead)"
    by (rule session_reachable [OF _ _ demo_events_ok(3) pair_session]) simp_all
qed

lemma beasts_session: "session canvas0 0 beasts_events = Inr (canvas0, beasts2)"
proof -
  let ?s1 = "demo_playing\<lparr>monsters := [demo_monster Beast 200], monstersSpawned := 1,
               bgX := - 2\<rparr>"
  let ?s2 = "demo_playing\<lparr>monsters := [demo_monster Beast 200], monstersSpawned := 2,
               monstersDefeated := 1, bgX := - 4\<rparr>"
  have u1: "update canvas0 1 (beast_rnd 0) demo_playing = Inr ?s1"
    by (simp add: game_defs demo_defs cong: let_weak_cong)
  have u2: "update canvas0 1 (beast_rnd 0) ?s1 = Inr ?s2"
    by (simp add: game_defs demo_defs cong: let_weak_cong)
  have u3: "update canvas0 1 (beast_rnd 0) ?s2 = Inr beasts2"
    by (simp add: game_defs demo_defs beasts2_def cong: let_weak_cong)
  show ?thesis
    unfolding beasts_events_def
    by (intro session_eval [OF demo_start_eval] run_PointerDown [OF demo_playing_eval]
          run_Frame [OF u1] run_Frame [OF u2] run_Frame [OF u3]) simp
qed

lemma beasts3_update: "update canvas0 1 (beast_rnd 0) beasts2 = Inr beasts3"
  by (simp add: game_defs demo_defs beasts2_def beasts3_def cong: let_weak_cong)

lemma beasts_reachable: "reachable (canvas0, beasts2)"
proof -
  have ok: "list_all event_ok beasts_events"
    by (simp add: beasts_events_def rnd_ok_def beast_rnd_def)
  show ?thesis
    by (rule session_reachable [OF _ _ ok beasts_session]) simp_all
qed

section \<open>The claims\<close>

text \<open>
  C1, as amended. In every reachable session the hearts counter is at most 3, it is at
  least 1 whenever the session is in the choice or the playing state (so every playing
  update starts with 1 to 3 hearts), and it is never lower than 3 minus the number of
  defeated monsters. There is no lower bound 0: every mismatched collision of a frame
  takes a heart, so the frame that ends play can leave the counter negative.
\<close>

theorem hearts_range:
  assumes "reachable (cv, g)"
  shows "hearts g \<le> 3 \<and> 3 - int (monstersDefeated g) \<le> hearts g \<and>
         (gameState g = Choice \<or> gameState g = Playing \<longrightarrow> 1 \<le> hearts g)"
  using reachable_inv [OF assms] by (simp add: session_inv_def)

theorem hearts_range_witness:
  "reachable (canvas0, hits2) \<and> gameState hits2 = Playing \<and> hearts hits2 \<le> 3 \<and>
   3 - int (monstersDefeated hits2) \<le> hearts hits2 \<and> 1 \<le> hearts hits2"
  using hearts_range [OF demo_reachable(2)] demo_reachable(2)
  by (simp add: hits2_def demo_playing_def demo_start_def)

text \<open>
  C1 as stated fails: with one heart left, two ghosts 20 pixels apart reach the hero
  (who holds the sword) on the same frame, and the session ends the frame with
  \<open>hearts = -1\<close>.
\<close>

theorem hearts_below_zero:
  "reachable (canvas0, pair_hit) \<and> hearts pair_hit = - 1 \<and> \<not> 0 \<le> hearts pair_hit"
proof -
  have "event_ok (Frame 1 (ghost_rnd (9 / 10)))"
    by (simp add: rnd_ok_def ghost_rnd_def)
  moreover have "step (Frame 1 (ghost_rnd (9 / 10))) (canvas0, pair_ahead) = Inr (canvas0, pair_hit)"
    by (simp add: pair_update)
  ultimately have "reachable (canvas0, pair_hit)"
    by (rule reachable_step [OF demo_reachable(4)])
  then show ?thesis
    by (simp add: pair_hit_def demo_playing_def demo_start_def)
qed

text \<open>
  C2, as amended. After a playing update the session is in the gameOver state exactly
  when the hearts are at 0 or below and the level was not completed on that frame; when
  the level is completed on the frame (the quota is defeated and no monster is left), the
  level-completion check, which runs last, decides and the state is levelEnd, whatever the
  hearts are.
\<close>

theorem gameOver_unless_level_complete:
  assumes "update cv delta r g = Inr g'" and "gameState g = Playing"
  shows "(gameState g' = GameOver \<longleftrightarrow> hearts g' \<le> 0 \<and> \<not> level_complete g') \<and>
         (level_complete g' \<longrightarrow> gameState g' = LevelEnd)"
  using update_playing_outcome [OF assms]
  by (simp add: level_complete_def)

theorem gameOver_unless_level_complete_witness:
  "update canvas0 1 (ghost_rnd 0) hits2 = Inr hits3 \<and> gameState hits2 = Playing \<and>
   hearts hits2 = 1 \<and> hearts hits3 = 0 \<and> \<not> level_complete hits3 \<and>
   gameState hits3 = GameOver"
  using gameOver_unless_level_complete [OF hits3_update] hits3_update
  by (simp add: hits2_def hits3_def demo_playing_def demo_start_def level_complete_def)

text \<open>
  C2 as stated fails: on level 0 the fifth and last monster, a ghost, reaches the hero
  who holds the sword and has one heart left. The update brings the hearts to 0 and
  completes the level, and the session is in the levelEnd state, not gameOver.
\<close>

theorem levelEnd_overrides_gameOver:
  "reachable (canvas0, last_ghost) \<and> gameState last_ghost = Playing \<and>
   hearts last_ghost = 1 \<and>
   update canvas0 1 (ghost_rnd 0) last_ghost = Inr level_won \<and>
   hearts level_won = 0 \<and> gameState level_won = LevelEnd \<and> gameState level_won \<noteq> GameOver"
  using demo_reachable(3) level_won_update
  by (simp add: last_ghost_def level_won_def demo_playing_def demo_start_def)

text \<open>
  C3. A playing update runs the collision loop on the session as it is after the spawn
  and the moves of that frame, against the box of the hero. In the loop, a monster that
  overlaps the hero is spliced out of the list and counted as defeated; when the hero's
  weapon is the one the monster requires nothing else changes, and otherwise the hearts go
  down by one and the damage flash is set to 0.2 seconds. So at the end of the update the
  monsters left are those that did not overlap, each overlapping monster has been counted
  as defeated once, the hearts have gone down by exactly the number of overlapping
  monsters that required the other weapon (by nothing when every overlapping monster
  required the hero's weapon), and after a mismatch the flash timer has been started and
  has run for this frame.
\<close>

theorem collision_outcomes:
  fixes g g' :: Game and cv :: canvas and delta :: real and r :: rnd and hb :: bounds
  defines "sp \<equiv> speed (LEVELS ! levelIndex g)"
  defines "spawned \<equiv> spawn_step cv delta r (scroll_step cv delta sp g)"
  defines "moved \<equiv> move_loop delta sp (length (monsters spawned)) spawned"
  defines "box \<equiv> Hero_getBounds (hero g)"
  assumes req: "\<forall>m \<in> set (monsters g). required_ok m"
  shows "(\<forall>i < length (monsters g). hit hb (monsters g ! i) \<longrightarrow>
            collision_body hb i g =
              (if wrong_weapon (hero g) (monsters g ! i)
               then g\<lparr>monsters := splice1 i (monsters g), hearts := hearts g - 1,
                      monstersDefeated := monstersDefeated g + 1,
                      damageFlash := Some (2 / 10)\<rparr>
               else g\<lparr>monsters := splice1 i (monsters g),
                      monstersDefeated := monstersDefeated g + 1\<rparr>)) \<and>
         collision_loop hb (length (monsters g)) g =
           g\<lparr>monsters := filter (\<lambda>m. \<not> hit hb m) (monsters g),
             hearts := hearts g
               - int (length (filter (\<lambda>m. hit hb m \<and> wrong_weapon (hero g) m) (monsters g))),
             monstersDefeated := monstersDefeated g + length (filter (hit hb) (monsters g)),
             damageFlash := (if \<exists>m \<in> set (monsters g). hit hb m \<and> wrong_weapon (hero g) m
                             then Some (2 / 10) else damageFlash g)\<rparr> \<and>
         (gameState g = Playing \<longrightarrow> update cv delta r g = Inr g' \<longrightarrow>
            g' = levelEnd_step (gameOver_step (choice_step (rnd_choice r) (flash_step delta
                   (collision_loop box (length (monsters moved)) moved)))) \<and>
            monsters g' = filter (\<lambda>m. \<not> hit box m) (monsters moved) \<and>
            monstersDefeated g' =
              monstersDefeated moved + length (filter (hit box) (monsters moved)) \<and>
            hearts g' = hearts g
              - int (length (filter (\<lambda>m. hit box m \<and> wrong_weapon (hero g) m) (monsters moved))) \<and>
            (list_all (\<lambda>m. hit box m \<longrightarrow> \<not> wrong_weapon (hero g) m) (monsters moved) \<longrightarrow>
               hearts g' = hearts g \<and> damageFlash g' = damageFlash (flash_step delta g)) \<and>
            (list_ex (\<lambda>m. hit box m \<and> wrong_weapon (hero g) m) (monsters moved) \<longrightarrow>
               damageFlash g' = (if 2 / 10 - delta \<le> 0 then None else Some (2 / 10 - delta))))"
proof (intro conjI allI impI)
  fix i
  assume "i < length (monsters g)" and h: "hit hb (monsters g ! i)"
  with req have "required_ok (monsters g ! i)" by simp
  with h show "collision_body hb i g =
              (if wrong_weapon (hero g) (monsters g ! i)
               then g\<lparr>monsters := splice1 i (monsters g), hearts := hearts g - 1,
                      monstersDefeated := monstersDefeated g + 1,
                      damageFlash := Some (2 / 10)\<rparr>
               else g\<lparr>monsters := splice1 i (monsters g),
                      monstersDefeated := monstersDefeated g + 1\<rparr>)"
    by (simp add: collision_body_def hit_def wrong_weapon_def required_ok_def Let_def)
next
  show "collision_loop hb (length (monsters g)) g =
           g\<lparr>monsters := filter (\<lambda>m. \<not> hit hb m) (monsters g),
             hearts := hearts g
               - int (length (filter (\<lambda>m. hit hb m \<and> wrong_weapon (hero g) m) (monsters g))),
             monstersDefeated := monstersDefeated g + length (filter (hit hb) (monsters g)),
             damageFlash := (if \<exists>m \<in> set (monsters g). hit hb m \<and> wrong_weapon (hero g) m
                             then Some (2 / 10) else damageFlash g)\<rparr>"
    by (rule collision_loop_full [OF req])
next
  assume play: "gameState g = Playing" and upd: "update cv delta r g = Inr g'"
  let ?s = "scroll_step cv delta sp g"
  let ?a = "collision_loop box (length (monsters moved)) moved"
  note sf = scroll_step_same [of cv delta sp g]
  have req_s: "\<forall>m \<in> set (monsters ?s). required_ok m"
    using req by (simp add: sf)
  have req_m: "\<forall>m \<in> set (monsters moved). required_ok m"
    unfolding moved_def spawned_def by (rule collision_input_required_ok [OF req_s])
  have sp_f: "hero spawned = hero g" "hearts spawned = hearts g"
    "damageFlash spawned = damageFlash g"
    using spawn_step_cases [of ?s cv delta r] by (auto simp: spawned_def sf)
  have mv_f: "hero moved = hero g" "hearts moved = hearts g"
    "damageFlash moved = damageFlash g"
    by (simp_all add: moved_def move_loop_full sp_f)
  have a_eq: "?a = moved\<lparr>monsters := filter (\<lambda>m. \<not> hit box m) (monsters moved),
       hearts := hearts g
          - int (length (filter (\<lambda>m. hit box m \<and> wrong_weapon (hero g) m) (monsters moved))),
       monstersDefeated := monstersDefeated moved + length (filter (hit box) (monsters moved)),
       damageFlash := (if \<exists>m \<in> set (monsters moved). hit box m \<and> wrong_weapon (hero g) m
                       then Some (2 / 10) else damageFlash g)\<rparr>"
    using collision_loop_full [OF req_m, of box] by (auto simp: mv_f)
  have ac: "after_collisions cv delta sp r ?s = ?a"
    by (simp add: after_collisions_def spawned_def moved_def box_def mv_f [unfolded moved_def spawned_def] Let_def)
  show g': "g' = levelEnd_step (gameOver_step (choice_step (rnd_choice r) (flash_step delta ?a)))"
    using update_playing [OF upd play] by (simp add: playing_step_tail ac [unfolded sp_def])
  note tf = tail_fields [of "rnd_choice r" delta ?a, folded g']
  show "monsters g' = filter (\<lambda>m. \<not> hit box m) (monsters moved)"
    by (simp add: tf a_eq)
  show "monstersDefeated g' =
          monstersDefeated moved + length (filter (hit box) (monsters moved))"
    by (simp add: tf a_eq)
  show hs: "hearts g' = hearts g
          - int (length (filter (\<lambda>m. hit box m \<and> wrong_weapon (hero g) m) (monsters moved)))"
    by (simp add: tf a_eq)
  have flash: "damageFlash g' = damageFlash (flash_step delta ?a)"
    unfolding g'
    by (simp add: levelEnd_step_def gameOver_step_def choice_step_def randomizeChoices_def
          Let_def)
  {
    assume none: "list_all (\<lambda>m. hit box m \<longrightarrow> \<not> wrong_weapon (hero g) m) (monsters moved)"
    then have "filter (\<lambda>m. hit box m \<and> wrong_weapon (hero g) m) (monsters moved) = []"
      by (auto simp: list_all_iff filter_empty_conv)
    then show "hearts g' = hearts g"
      by (simp add: hs)
    from none have "damageFlash ?a = damageFlash g"
      by (auto simp: a_eq list_all_iff)
    then show "damageFlash g' = damageFlash (flash_step delta g)"
      by (simp add: flash flash_step_def split: option.split)
  }
  {
    assume "list_ex (\<lambda>m. hit box m \<and> wrong_weapon (hero g) m) (monsters moved)"
    then have "damageFlash ?a = Some (2 / 10)"
      by (auto simp: a_eq list_ex_iff)
    then show "damageFlash g' = (if 2 / 10 - delta \<le> 0 then None else Some (2 / 10 - delta))"
      by (simp add: flash flash_step_def)
  }
qed

theorem collision_outcomes_witness:
  "list_all required_ok (monsters clash) \<and>
   hit (Hero_getBounds (hero clash)) (monsters clash ! 0) \<and>
   wrong_weapon (hero clash) (monsters clash ! 0) \<and>
   collision_body (Hero_getBounds (hero clash)) 0 clash =
     clash\<lparr>monsters := [demo_monster Beast 100], hearts := 2, monstersDefeated := 1,
            damageFlash := Some (2 / 10)\<rparr> \<and>
   hit (Hero_getBounds (hero clash)) (monsters clash ! 1) \<and>
   \<not> wrong_weapon (hero clash) (monsters clash ! 1) \<and>
   collision_body (Hero_getBounds (hero clash)) 1 clash =
     clash\<lparr>monsters := [demo_monster Ghost 0], monstersDefeated := 1\<rparr> \<and>
   collision_loop (Hero_getBounds (hero clash)) (length (monsters clash)) clash =
     clash\<lparr>monsters := [], hearts := 2, monstersDefeated := 2,
            damageFlash := Some (2 / 10)\<rparr> \<and>
   gameState clash = Playing \<and>
   update canvas0 (1 / 10) (ghost_rnd 0) clash =
     Inr (clash\<lparr>monsters := [], spawnTimer := 100,
            monstersDefeated := 2, hearts := 2, bgX := - (2 / 10),
            damageFlash := Some (1 / 10)\<rparr>) \<and>
   monsters (move_loop (1 / 10) 2 (length (monsters clash))
       (spawn_step canvas0 (1 / 10) (ghost_rnd 0) (scroll_step canvas0 (1 / 10) 2 clash))) =
     [demo_monster Ghost (- 20), demo_monster Beast 80]"
proof -
  have req: "\<forall>m \<in> set (monsters clash). required_ok m"
    by (simp add: clash_def demo_playing_def demo_start_def demo_monster_def required_ok_def)
  have play: "gameState clash = Playing"
    by (simp add: clash_def demo_playing_def demo_start_def)
  obtain g' where upd: "update canvas0 (1 / 10) (ghost_rnd 0) clash = Inr g'"
    using update_total [of clash canvas0 "1 / 10" "ghost_rnd 0"]
    by (auto simp: clash_def demo_playing_def demo_start_def LEVELS_def)
  note all = collision_outcomes [OF req, where hb = "Hero_getBounds (hero clash)"
      and cv = canvas0 and delta = "1 / 10" and r = "ghost_rnd 0" and g' = g']
  note first = all [THEN conjunct1, rule_format, of 0]
    and second = all [THEN conjunct2, THEN conjunct1]
    and whole = all [THEN conjunct2, THEN conjunct2, THEN mp, THEN mp, OF play upd,
      THEN conjunct1]
  have third: "collision_body (Hero_getBounds (hero clash)) 1 clash =
     clash\<lparr>monsters := [demo_monster Ghost 0], monstersDefeated := 1\<rparr>"
    using all [THEN conjunct1, rule_format, of 1]
    by (simp add: clash_def demo_playing_def demo_start_def demo_monster_def hit_def
          wrong_weapon_def collides_def Hero_getBounds_def Monster_getBounds_def splice1_def)
  have "g' = clash\<lparr>monsters := [], spawnTimer := 100,
            monstersDefeated := 2, hearts := 2, bgX := - (2 / 10),
            damageFlash := Some (1 / 10)\<rparr>"
    using whole
    by (simp add: game_defs demo_defs clash_def cong: let_weak_cong)
  with upd have u: "update canvas0 (1 / 10) (ghost_rnd 0) clash =
     Inr (clash\<lparr>monsters := [], spawnTimer := 100,
            monstersDefeated := 2, hearts := 2, bgX := - (2 / 10),
            damageFlash := Some (1 / 10)\<rparr>)"
    by simp
  have mv: "monsters (move_loop (1 / 10) 2 (length (monsters clash))
       (spawn_step canvas0 (1 / 10) (ghost_rnd 0) (scroll_step canvas0 (1 / 10) 2 clash))) =
     [demo_monster Ghost (- 20), demo_monster Beast 80]"
    by (simp add: game_defs demo_defs clash_def cong: let_weak_cong)
  show ?thesis
    using first second third req play u mv
    by (simp add: clash_def demo_playing_def demo_start_def demo_monster_def hit_def
          wrong_weapon_def collides_def Hero_getBounds_def Monster_getBounds_def splice1_def)
qed

text \<open>
  C4. A playing update ends in the levelEnd state exactly when, at the end of that
  same update, the number of defeated monsters has reached the quota of the level and
  the list of active monsters is empty.
\<close>

theorem levelEnd_exactly:
  assumes "update cv delta r g = Inr g'" and "gameState g = Playing"
  shows "gameState g' = LevelEnd \<longleftrightarrow>
           monstersToSpawn g' \<le> monstersDefeated g' \<and> monsters g' = []"
  using update_playing_outcome [OF assms]
  by (simp add: level_complete_def)

theorem levelEnd_exactly_witness:
  "update canvas0 1 (ghost_rnd 0) last_ghost = Inr level_won \<and>
   gameState last_ghost = Playing \<and> gameState level_won = LevelEnd \<and>
   monstersToSpawn level_won \<le> monstersDefeated level_won \<and> monsters level_won = []"
  using levelEnd_exactly [OF level_won_update] level_won_update
  by (simp add: last_ghost_def level_won_def demo_playing_def demo_start_def)

text \<open>
  C5, as amended. Every level starts with the choice threshold \<open>min 3 quota\<close>. When a
  playing update with no choice pending ends with the number of defeated monsters at or
  above the threshold and still below the quota, the threshold advances by 3 (capped at
  the quota), \<open>choiceActive\<close> is set, and the session re-enters the choice state, unless
  the hearts are at 0 or below at the end of that update: then the game-over check, which
  runs after the choice check, puts the session in the gameOver state.
\<close>

theorem choice_when_due:
  assumes "update cv delta r g = Inr g'" and "gameState g = Playing"
    and "\<not> choiceActive g" and "nextChoiceAt g \<le> monstersDefeated g'"
    and "monstersDefeated g' < monstersToSpawn g"
  shows "gameState g' = (if hearts g' \<le> 0 then GameOver else Choice) \<and>
         choiceActive g' \<and>
         nextChoiceAt g' = min (nextChoiceAt g + 3) (monstersToSpawn g) \<and>
         (\<forall>cv0 r0 i g0 g1. startLevel cv0 r0 i g0 = Inr g1 \<longrightarrow>
            nextChoiceAt g1 = min 3 (monsterCount (LEVELS ! i)))"
proof -
  note out = update_playing_outcome [OF assms(1,2)]
  let ?a = "after_collisions cv delta (speed (LEVELS ! levelIndex g)) r
              (scroll_step cv delta (speed (LEVELS ! levelIndex g)) g)"
  have due: "choice_due ?a"
    using assms(3,4,5) by (simp add: choice_due_def out)
  have "\<not> level_complete ?a"
    using assms(5) by (simp add: level_complete_def out)
  with due have "gameState g' = (if hearts g' \<le> 0 then GameOver else Choice)"
    and "choiceActive g'"
    and "nextChoiceAt g' = min (nextChoiceAt g + 3) (monstersToSpawn g)"
    by (simp_all add: out)
  moreover have "nextChoiceAt g1 = min 3 (monsterCount (LEVELS ! i))"
    if "startLevel cv0 r0 i g0 = Inr g1" for cv0 r0 i g0 g1
    using that
    by (auto simp: startLevel_def randomizeChoices_def Let_def split: if_splits)
  ultimately show ?thesis by blast
qed

theorem choice_when_due_witness:
  "update canvas0 1 (beast_rnd 0) beasts2 = Inr beasts3 \<and> gameState beasts2 = Playing \<and>
   \<not> choiceActive beasts2 \<and> levelIndex beasts2 = 0 \<and> monstersToSpawn beasts2 = 5 \<and>
   nextChoiceAt beasts2 = 3 \<and> monstersDefeated beasts2 = 2 \<and> monstersDefeated beasts3 = 3 \<and>
   hearts beasts3 = 3 \<and> gameState beasts3 = Choice \<and> choiceActive beasts3 \<and>
   nextChoiceAt beasts3 = 5"
  using choice_when_due [OF beasts3_update] beasts3_update
  by (simp add: beasts2_def beasts3_def demo_playing_def demo_start_def)

text \<open>
  C5 as stated fails: on level 0 (quota 5, threshold 3) the third defeat is a ghost that
  takes the last heart of the hero who holds the sword. No choice is pending, the defeat
  count reaches the threshold below the quota, and the session ends the frame in the
  gameOver state instead of the choice state.
\<close>

theorem choice_lost_to_gameOver:
  "reachable (canvas0, hits2) \<and> gameState hits2 = Playing \<and> \<not> choiceActive hits2 \<and>
   monstersDefeated hits2 < nextChoiceAt hits2 \<and>
   update canvas0 1 (ghost_rnd 0) hits2 = Inr hits3 \<and>
   nextChoiceAt hits2 \<le> monstersDefeated hits3 \<and>
   monstersDefeated hits3 < monstersToSpawn hits3 \<and>
   gameState hits3 = GameOver \<and> gameState hits3 \<noteq> Choice"
  using demo_reachable(2) hits3_update
  by (simp add: hits2_def hits3_def demo_playing_def demo_start_def)

text \<open>
  C6. Starting level \<open>i\<close> sets the quota \<open>monstersToSpawn\<close> to the configured
  \<open>monsterCount\<close> of that level and the spawn interval to \<open>max 400 (1000 - 50 * i)\<close>
  milliseconds, and these stay so in every reachable session. The number of spawned
  monsters never passes the quota, and once it has reached the quota an update spawns
  nothing: the counter keeps its value and the list of monsters does not grow.
\<close>

theorem spawn_quota:
  assumes "reachable (cv, g)"
  shows "(\<forall>i < length LEVELS. \<forall>cv0 r0 g0. \<exists>g1. startLevel cv0 r0 i g0 = Inr g1 \<and>
            monstersToSpawn g1 = monsterCount (LEVELS ! i) \<and>
            spawnInterval g1 = max 400 (1000 - 50 * real i)) \<and>
         monstersToSpawn g = monsterCount (LEVELS ! levelIndex g) \<and>
         spawnInterval g = max 400 (1000 - 50 * real (levelIndex g)) \<and>
         monstersSpawned g \<le> monstersToSpawn g \<and>
         (\<forall>delta r g'. monstersSpawned g = monstersToSpawn g \<longrightarrow>
            update cv delta r g = Inr g' \<longrightarrow>
            monstersSpawned g' = monstersSpawned g \<and> monstersToSpawn g' = monstersToSpawn g \<and>
            length (monsters g') \<le> length (monsters g))"
proof -
  from reachable_inv [OF assms] have inv: "session_inv g" by simp
  have a: "\<exists>g1. startLevel cv0 r0 i g0 = Inr g1 \<and>
            monstersToSpawn g1 = monsterCount (LEVELS ! i) \<and>
            spawnInterval g1 = max 400 (1000 - 50 * real i)"
    if "i < length LEVELS" for i cv0 r0 g0
    using that by (simp add: startLevel_def randomizeChoices_def Let_def mult.commute)
  have b: "monstersToSpawn g = monsterCount (LEVELS ! levelIndex g)"
    and c: "spawnInterval g = max 400 (1000 - 50 * real (levelIndex g))"
    and d: "monstersSpawned g \<le> monstersToSpawn g"
    using inv by (simp_all add: session_inv_def counts_ok_def mult.commute)
  have e: "monstersSpawned g' = monstersSpawned g \<and> monstersToSpawn g' = monstersToSpawn g \<and>
           length (monsters g') \<le> length (monsters g)"
    if full: "monstersSpawned g = monstersToSpawn g" and upd: "update cv delta r g = Inr g'"
    for delta r g'
  proof (cases "gameState g = Playing")
    case True
    from inv have req: "\<forall>m \<in> set (monsters g). required_ok m"
      by (simp add: session_inv_def)
    from update_playing_inv(5) [OF upd True req] update_playing_outcome(5) [OF upd True] full
    show ?thesis by simp
  next
    case False
    show ?thesis
      unfolding update_paused [OF upd False] by (simp add: scroll_step_same)
  qed
  from a b c d e show ?thesis by blast
qed

theorem spawn_quota_witness:
  "reachable (canvas0, last_ghost) \<and> levelIndex last_ghost = 0 \<and>
   monstersToSpawn last_ghost = 5 \<and> spawnInterval last_ghost = 1000 \<and>
   monstersSpawned last_ghost = monstersToSpawn last_ghost \<and>
   update canvas0 1 (ghost_rnd 0) last_ghost = Inr level_won \<and>
   monstersSpawned level_won = 5 \<and> length (monsters level_won) \<le> length (monsters last_ghost)"
proof -
  note all = spawn_quota [OF demo_reachable(3)]
  note upd = all [THEN conjunct2, THEN conjunct2, THEN conjunct2, THEN conjunct2, rule_format,
      OF _ level_won_update]
  show ?thesis
    using all upd demo_reachable(3) level_won_update
    by (simp add: last_ghost_def level_won_def demo_playing_def demo_start_def LEVELS_def)
qed

text \<open>
  C7. The loop that moves the monsters removes every monster that is off screen after
  its move (\<open>x + width < 0\<close>) and counts it as defeated, and changes nothing else: no
  heart is lost. After a playing update no monster of the list is off screen.
\<close>

theorem escaped_monsters:
  "move_loop delta sp (length (monsters g)) g =
     g\<lparr>monsters := filter (\<lambda>m. \<not> offscreen m)
                      (map (Monster_update (delta * 100) sp) (monsters g)),
       monstersDefeated := monstersDefeated g
          + length (filter offscreen (map (Monster_update (delta * 100) sp) (monsters g)))\<rparr> \<and>
   hearts (move_loop delta sp (length (monsters g)) g) = hearts g \<and>
   (gameState g = Playing \<longrightarrow> (\<forall>m \<in> set (monsters g). required_ok m) \<longrightarrow>
    update cv delta r g = Inr g' \<longrightarrow> (\<forall>m \<in> set (monsters g'). \<not> offscreen m))"
proof (intro conjI impI)
  show "move_loop delta sp (length (monsters g)) g =
     g\<lparr>monsters := filter (\<lambda>m. \<not> offscreen m)
                      (map (Monster_update (delta * 100) sp) (monsters g)),
       monstersDefeated := monstersDefeated g
          + length (filter offscreen (map (Monster_update (delta * 100) sp) (monsters g)))\<rparr>"
    by (rule move_loop_full)
  then show "hearts (move_loop delta sp (length (monsters g)) g) = hearts g"
    by simp
next
  assume "gameState g = Playing" and "\<forall>m \<in> set (monsters g). required_ok m"
    and "update cv delta r g = Inr g'"
  then show "\<forall>m \<in> set (monsters g'). \<not> offscreen m"
    by (rule update_playing_inv(6) [rotated 1])
qed

theorem escaped_monsters_witness:
  "gameState leaving = Playing \<and> list_all required_ok (monsters leaving) \<and>
   offscreen (Monster_update (1 * 100) 2 (demo_monster Ghost (- 100))) \<and>
   move_loop 1 2 (length (monsters leaving)) leaving =
     leaving\<lparr>monsters := [demo_monster Beast 300], monstersDefeated := 1\<rparr> \<and>
   hearts (move_loop 1 2 (length (monsters leaving)) leaving) = 3 \<and>
   update canvas0 1 (ghost_rnd 0) leaving =
     Inr (leaving\<lparr>monsters := [demo_monster Beast 300, demo_monster Ghost 200],
            monstersSpawned := 3, monstersDefeated := 1, bgX := - 2\<rparr>) \<and>
   list_all (\<lambda>m. \<not> offscreen m) [demo_monster Beast 300, demo_monster Ghost 200]"
proof -
  have upd: "update canvas0 1 (ghost_rnd 0) leaving =
     Inr (leaving\<lparr>monsters := [demo_monster Beast 300, demo_monster Ghost 200],
            monstersSpawned := 3, monstersDefeated := 1, bgX := - 2\<rparr>)"
    by (simp add: game_defs demo_defs leaving_def cong: let_weak_cong)
  have req: "\<forall>m \<in> set (monsters leaving). required_ok m"
    by (simp add: leaving_def demo_playing_def demo_start_def demo_monster_def required_ok_def)
  have play: "gameState leaving = Playing"
    by (simp add: leaving_def demo_playing_def demo_start_def)
  note all = escaped_monsters [of 1 2 leaving canvas0 "ghost_rnd 0"]
  note after = all [THEN conjunct2, THEN conjunct2, THEN mp, THEN mp, THEN mp,
      OF play req upd]
  show ?thesis
    using all [THEN conjunct1] all [THEN conjunct2, THEN conjunct1] after upd req play
    by (simp add: leaving_def demo_playing_def demo_start_def demo_monster_def
          Monster_update_def offscreen_def)
qed

text \<open>
  C8. In every reachable session the defeated monsters and the active monsters add up
  to the spawned ones, the spawned ones do not exceed the quota, hence the defeated ones
  do not either; and an update leads to a session where the same holds.
\<close>

theorem defeated_within_quota:
  assumes "reachable (cv, g)"
  shows "monstersDefeated g + length (monsters g) = monstersSpawned g \<and>
         monstersSpawned g \<le> monstersToSpawn g \<and>
         monstersDefeated g \<le> monstersToSpawn g \<and>
         (\<forall>delta r g'. update cv delta r g = Inr g' \<longrightarrow>
            monstersDefeated g' + length (monsters g') = monstersSpawned g' \<and>
            monstersSpawned g' \<le> monstersToSpawn g' \<and>
            monstersDefeated g' \<le> monstersToSpawn g')"
proof -
  from reachable_inv [OF assms] have inv: "session_inv g" by simp
  then have now: "counts_ok g" by (simp add: session_inv_def)
  have count: "monstersDefeated s + length (monsters s) = monstersSpawned s \<and>
         monstersSpawned s \<le> monstersToSpawn s \<and> monstersDefeated s \<le> monstersToSpawn s"
    if "counts_ok s" for s
    using that unfolding counts_ok_def by arith
  have "counts_ok g'" if "update cv delta r g = Inr g'" for delta r g'
    using update_inv [OF inv that] by (simp add: session_inv_def)
  then have "monstersDefeated g' + length (monsters g') = monstersSpawned g' \<and>
         monstersSpawned g' \<le> monstersToSpawn g' \<and> monstersDefeated g' \<le> monstersToSpawn g'"
    if "update cv delta r g = Inr g'" for delta r g'
    using that by (intro count)
  with count [OF now] show ?thesis
    by simp
qed

theorem defeated_within_quota_witness:
  "reachable (canvas0, pair_ahead) \<and> monstersDefeated pair_ahead = 2 \<and>
   length (monsters pair_ahead) = 2 \<and> monstersSpawned pair_ahead = 4 \<and>
   monstersToSpawn pair_ahead = 5 \<and>
   update canvas0 1 (ghost_rnd (9 / 10)) pair_ahead = Inr pair_hit \<and>
   monstersDefeated pair_hit + length (monsters pair_hit) = monstersSpawned pair_hit \<and>
   monstersSpawned pair_hit \<le> monstersToSpawn pair_hit \<and>
   monstersDefeated pair_hit \<le> monstersToSpawn pair_hit"
proof -
  note all = defeated_within_quota [OF demo_reachable(4)]
  note upd = all [THEN conjunct2, THEN conjunct2, THEN conjunct2, rule_format, OF pair_update]
  show ?thesis
    using all upd demo_reachable(4) pair_update
    by (simp add: pair_ahead_def demo_playing_def demo_start_def)
qed

text \<open>
  C9, as amended. In any state other than playing (so in the choice, levelEnd and
  gameOver states) an update changes the background scroll offset \<open>bgX\<close> and nothing
  else: the offset moves left by \<open>speed * delta\<close> and wraps by the canvas width.
\<close>

theorem paused_update_only_scrolls:
  assumes "gameState g \<noteq> Playing" and "update cv delta r g = Inr g'"
  shows "g' = g\<lparr>bgX := bgX g'\<rparr> \<and>
         bgX g' =
           (if bgX g - speed (LEVELS ! levelIndex g) * delta \<le> - real (canvas_width cv)
            then bgX g - speed (LEVELS ! levelIndex g) * delta + real (canvas_width cv)
            else bgX g - speed (LEVELS ! levelIndex g) * delta)"
  unfolding update_paused [OF assms(2,1)]
  by (simp add: scroll_step_def Let_def)

theorem paused_update_only_scrolls_witness:
  "gameState hits3 = GameOver \<and> gameState hits3 \<noteq> Playing \<and>
   update canvas0 1 (ghost_rnd 0) hits3 = Inr (hits3\<lparr>bgX := - 10\<rparr>)"
proof -
  have np: "gameState hits3 \<noteq> Playing"
    by (simp add: hits3_def demo_playing_def demo_start_def)
  obtain g' where upd: "update canvas0 1 (ghost_rnd 0) hits3 = Inr g'"
    using update_total [of hits3 canvas0 1 "ghost_rnd 0"]
    by (auto simp: hits3_def demo_playing_def demo_start_def LEVELS_def)
  note only = paused_update_only_scrolls [OF np upd]
  have "bgX g' = - 10"
    using only [THEN conjunct2]
    by (simp add: hits3_def demo_playing_def demo_start_def LEVELS_def canvas0_def)
  with only [THEN conjunct1] have "g' = hits3\<lparr>bgX := - 10\<rparr>"
    by simp
  with upd np show ?thesis
    by (simp add: hits3_def demo_playing_def demo_start_def)
qed

text \<open>
  C9 as stated fails: while the first choice of level 0 is open, an update of one second
  moves the background scroll offset from 0 to -2.
\<close>

theorem paused_update_scrolls:
  "reachable (canvas0, demo_start) \<and> gameState demo_start = Choice \<and>
   bgX demo_start = 0 \<and>
   update canvas0 1 (ghost_rnd 0) demo_start = Inr (demo_start\<lparr>bgX := - 2\<rparr>) \<and>
   demo_start\<lparr>bgX := - 2\<rparr> \<noteq> demo_start"
proof -
  have "update canvas0 1 (ghost_rnd 0) demo_start = Inr (demo_start\<lparr>bgX := - 2\<rparr>)"
    by (simp add: game_defs demo_defs cong: let_weak_cong)
  moreover have "demo_start\<lparr>bgX := - 2\<rparr> \<noteq> demo_start"
    by (simp add: demo_start_def)
  ultimately show ?thesis
    using demo_reachable(1) by (simp add: demo_start_def)
qed

text \<open>
  C10. For every index of the level table, \<open>startLevel\<close> returns a session with three
  hearts, no monsters, both counters at zero, the sword as the hero's weapon and the
  choice state open, whatever the session was before. The pointer and key handlers start
  a level from the levelEnd and gameOver states, so every level and every restart begin
  with three hearts.
\<close>

theorem startLevel_fresh:
  assumes "index < length LEVELS"
  shows "(\<exists>g'. startLevel cv r index g = Inr g' \<and> levelIndex g' = index \<and> hearts g' = 3 \<and>
            monsters g' = [] \<and> monstersSpawned g' = 0 \<and> monstersDefeated g' = 0 \<and>
            hero_weapon (hero g') = Sword \<and> gameState g' = Choice) \<and>
         (\<forall>px k g1. (gameState g = LevelEnd \<or> gameState g = GameOver) \<longrightarrow>
            (pointerdown cv r px g = Inr g1 \<or>
             keydown cv r k g = Inr g1 \<and> gameState g1 \<noteq> gameState g) \<longrightarrow>
            hearts g1 = 3 \<and> monsters g1 = [] \<and> gameState g1 = Choice)"
proof (rule conjI; (intro allI impI)?)
  show "\<exists>g'. startLevel cv r index g = Inr g' \<and> levelIndex g' = index \<and> hearts g' = 3 \<and>
            monsters g' = [] \<and> monstersSpawned g' = 0 \<and> monstersDefeated g' = 0 \<and>
            hero_weapon (hero g') = Sword \<and> gameState g' = Choice"
    using assms by (simp add: startLevel_def randomizeChoices_def Let_def)
next
  fix px k g1
  assume st: "gameState g = LevelEnd \<or> gameState g = GameOver"
    and ev: "pointerdown cv r px g = Inr g1 \<or>
             keydown cv r k g = Inr g1 \<and> gameState g1 \<noteq> gameState g"
  have fresh: "hearts g1 = 3 \<and> monsters g1 = [] \<and> gameState g1 = Choice"
    if "startLevel cv r i g = Inr g1" for i
    using that by (auto simp: startLevel_def randomizeChoices_def Let_def split: if_splits)
  from st ev obtain i where "startLevel cv r i g = Inr g1"
    unfolding pointerdown_def keydown_def by (auto split: if_splits)
  then show "hearts g1 = 3 \<and> monsters g1 = [] \<and> gameState g1 = Choice"
    by (rule fresh)
qed

theorem startLevel_fresh_witness:
  "(1::nat) < length LEVELS \<and> hearts pair_hit = - 1 \<and> gameState pair_hit = GameOver \<and>
   (\<exists>g'. startLevel canvas0 0 1 pair_hit = Inr g' \<and> levelIndex g' = 1 \<and> hearts g' = 3 \<and>
      monsters g' = [] \<and> monstersSpawned g' = 0 \<and> monstersDefeated g' = 0 \<and>
      hero_weapon (hero g') = Sword \<and> gameState g' = Choice)"
proof -
  have i: "(1::nat) < length LEVELS" by (simp add: LEVELS_def)
  from startLevel_fresh [OF i, of canvas0 0 pair_hit] i show ?thesis
    by (simp add: pair_hit_def demo_playing_def demo_start_def)
qed


end
